theory Spec2Isabelle
  imports Main
begin

section \<open>Data model of the migration\<close>

text \<open>
  The schema is the one of \<^verbatim>\<open>supabase/migrations/20250904073112_...sql\<close>.
  A \<^verbatim>\<open>UUID\<close> is an opaque identifier, a timestamp is a point on a clock, a
  \<^verbatim>\<open>DECIMAL(10,2)\<close> is an exact count of hundredths (40.00 is \<open>4000\<close>), a nullable
  column is an \<open>option\<close>. A table is the list of its rows.
\<close>

type_synonym uuid = nat
type_synonym timestamp = int
type_synonym decimal = int

text \<open>
  The values the signup form puts into \<^verbatim>\<open>raw_user_meta_data\<close> are strings and a
  boolean; \<^verbatim>\<open>->>\<close> reads a key of the object as text, and gives \<^verbatim>\<open>NULL\<close> for a
  missing key and for a JSON null.
\<close>

datatype json = JNull | JBool bool | JStr string

fun json_text :: "json \<Rightarrow> string option" where
  "json_text JNull = None"
| "json_text (JBool b) = Some (if b then ''true'' else ''false'')"
| "json_text (JStr s) = Some s"

definition json_get_text :: "(string \<times> json) list \<Rightarrow> string \<Rightarrow> string option" where
  "json_get_text obj k = (case map_of obj k of None \<Rightarrow> None | Some v \<Rightarrow> json_text v)"

record auth_user =
  auth_user_id :: uuid
  raw_user_meta_data :: "(string \<times> json) list"

record profile_row =
  profile_id :: uuid
  profile_user_id :: uuid
  profile_full_name :: "string option"
  profile_phone :: "string option"
  profile_language :: "string option"
  profile_data_collection_consent :: "bool option"
  profile_created_at :: timestamp
  profile_updated_at :: timestamp

record category_row =
  category_id :: uuid
  category_name :: string
  category_name_hi :: "string option"
  category_icon_url :: "string option"
  category_sort_order :: "int option"
  category_is_active :: "bool option"
  category_created_at :: timestamp

record product_row =
  product_id :: uuid
  product_name :: string
  product_name_hi :: "string option"
  product_description :: "string option"
  product_description_hi :: "string option"
  product_price :: decimal
  product_original_price :: "decimal option"
  product_discount_percentage :: "int option"
  product_image_url :: "string option"
  product_category_id :: "uuid option"
  product_brand :: "string option"
  product_unit :: "string option"
  product_stock_quantity :: "int option"
  product_is_active :: "bool option"
  product_created_at :: timestamp
  product_updated_at :: timestamp

record cart_row =
  cart_id :: uuid
  cart_user_id :: uuid
  cart_product_id :: uuid
  cart_quantity :: int
  cart_created_at :: timestamp
  cart_updated_at :: timestamp

record order_row =
  order_id :: uuid
  order_user_id :: uuid
  order_total_amount :: decimal
  order_delivery_fee :: "decimal option"
  order_discount_amount :: "decimal option"
  order_status :: "string option"
  order_payment_method :: "string option"
  order_delivery_address :: string
  order_phone :: string
  order_created_at :: timestamp
  order_updated_at :: timestamp

record order_item_row =
  item_id :: uuid
  item_order_id :: uuid
  item_product_id :: uuid
  item_quantity :: int
  item_unit_price :: decimal
  item_total_price :: decimal
  item_created_at :: timestamp

record database =
  auth_users :: "auth_user list"
  profiles :: "profile_row list"
  categories :: "category_row list"
  products :: "product_row list"
  cart :: "cart_row list"
  orders :: "order_row list"
  order_items :: "order_item_row list"

text \<open>A rejected statement: the kind of violation and the name of the constraint or table.\<close>

datatype error =
    RlsViolation string
  | CheckViolation string
  | UniqueViolation string
  | ForeignKeyViolation string
  | NumericOutOfRange string

section \<open>Row level security\<close>

text \<open>
  Every table has row level security enabled. A policy names a command and a predicate
  over the row, \<^verbatim>\<open>auth.uid()\<close> (\<open>None\<close> for an anonymous request) and, for
  \<^verbatim>\<open>order_items\<close>, the rest of the database. Predicates are SQL's three-valued ones:
  a comparison with \<^verbatim>\<open>NULL\<close> is \<^verbatim>\<open>NULL\<close>, and a row passes only where the predicate is true.
  The policies of one table are permissive: a row passes a command when some policy for that
  command lets it pass, and a command with no policy passes no row.
\<close>

datatype command = Select | Insert | Update | Delete

type_synonym 'r policy = "command \<times> (database \<Rightarrow> uuid option \<Rightarrow> 'r \<Rightarrow> bool option)"

definition sql_eq :: "'a option \<Rightarrow> 'a option \<Rightarrow> bool option" where
  "sql_eq a b = (case a of None \<Rightarrow> None | Some x \<Rightarrow> (case b of None \<Rightarrow> None | Some y \<Rightarrow> Some (x = y)))"

definition sql_in :: "'a option \<Rightarrow> 'a list \<Rightarrow> bool option" where
  "sql_in a xs = (case a of None \<Rightarrow> None | Some x \<Rightarrow> Some (x \<in> set xs))"

definition permitted :: "'r policy list \<Rightarrow> command \<Rightarrow> database \<Rightarrow> uuid option \<Rightarrow> 'r \<Rightarrow> bool" where
  "permitted ps c d uid r = list_ex (\<lambda>p. fst p = c \<and> snd p d uid r = Some True) ps"

definition profiles_policies :: "profile_row policy list" where
  "profiles_policies =
    [(Select, \<lambda>d uid r. sql_eq uid (Some (profile_user_id r))),
     (Update, \<lambda>d uid r. sql_eq uid (Some (profile_user_id r))),
     (Insert, \<lambda>d uid r. sql_eq uid (Some (profile_user_id r)))]"

definition categories_policies :: "category_row policy list" where
  "categories_policies = [(Select, \<lambda>d uid r. sql_eq (category_is_active r) (Some True))]"

definition products_policies :: "product_row policy list" where
  "products_policies = [(Select, \<lambda>d uid r. sql_eq (product_is_active r) (Some True))]"

definition cart_policies :: "cart_row policy list" where
  "cart_policies =
    [(Select, \<lambda>d uid r. sql_eq uid (Some (cart_user_id r))),
     (Insert, \<lambda>d uid r. sql_eq uid (Some (cart_user_id r))),
     (Update, \<lambda>d uid r. sql_eq uid (Some (cart_user_id r))),
     (Delete, \<lambda>d uid r. sql_eq uid (Some (cart_user_id r)))]"

definition orders_policies :: "order_row policy list" where
  "orders_policies =
    [(Select, \<lambda>d uid r. sql_eq uid (Some (order_user_id r))),
     (Insert, \<lambda>d uid r. sql_eq uid (Some (order_user_id r)))]"

text \<open>
  The subquery of the \<^verbatim>\<open>order_items\<close> policies,
  \<^verbatim>\<open>SELECT id FROM public.orders WHERE user_id = auth.uid()\<close>, runs as the requester,
  so it sees the orders that the \<^verbatim>\<open>orders\<close> policy for \<^verbatim>\<open>SELECT\<close> lets through.
\<close>

definition own_order_ids :: "database \<Rightarrow> uuid option \<Rightarrow> uuid list" where
  "own_order_ids d uid =
    map order_id
      (filter (\<lambda>r. permitted orders_policies Select d uid r
                  \<and> sql_eq (Some (order_user_id r)) uid = Some True) (orders d))"

definition order_items_policies :: "order_item_row policy list" where
  "order_items_policies =
    [(Select, \<lambda>d uid r. sql_in (Some (item_order_id r)) (own_order_ids d uid)),
     (Insert, \<lambda>d uid r. sql_in (Some (item_order_id r)) (own_order_ids d uid))]"

text \<open>
  The statements of the data-access client, run under the policies \<open>ps\<close> of a table
  whose rows are \<open>rows\<close>. A read returns the rows that pass the \<^verbatim>\<open>SELECT\<close> policy and
  the filter. An \<^verbatim>\<open>UPDATE\<close> or \<^verbatim>\<open>DELETE\<close> with a filter touches the rows that pass
  the \<^verbatim>\<open>SELECT\<close> policy, the policy of the command and the filter; no error is raised for the
  others. The new version of an updated row is checked against the \<^verbatim>\<open>UPDATE\<close> policy too
  (no policy of the migration has a separate \<^verbatim>\<open>WITH CHECK\<close>), and an inserted row against the
  \<^verbatim>\<open>INSERT\<close> policy; a row that fails this check rejects the statement.
\<close>

definition rls_select ::
  "'r policy list \<Rightarrow> database \<Rightarrow> uuid option \<Rightarrow> ('r \<Rightarrow> bool) \<Rightarrow> 'r list \<Rightarrow> 'r list" where
  "rls_select ps d uid wh rows = filter (\<lambda>r. permitted ps Select d uid r \<and> wh r) rows"

definition rls_target ::
  "'r policy list \<Rightarrow> command \<Rightarrow> database \<Rightarrow> uuid option \<Rightarrow> ('r \<Rightarrow> bool) \<Rightarrow> 'r \<Rightarrow> bool" where
  "rls_target ps c d uid wh r \<longleftrightarrow> permitted ps Select d uid r \<and> permitted ps c d uid r \<and> wh r"

definition rls_affected ::
  "'r policy list \<Rightarrow> command \<Rightarrow> database \<Rightarrow> uuid option \<Rightarrow> ('r \<Rightarrow> bool) \<Rightarrow> 'r list \<Rightarrow> nat" where
  "rls_affected ps c d uid wh rows = length (filter (rls_target ps c d uid wh) rows)"

definition rls_delete ::
  "'r policy list \<Rightarrow> database \<Rightarrow> uuid option \<Rightarrow> ('r \<Rightarrow> bool) \<Rightarrow> 'r list \<Rightarrow> 'r list" where
  "rls_delete ps d uid wh rows = filter (\<lambda>r. \<not> rls_target ps Delete d uid wh r) rows"

definition rls_update ::
  "string \<Rightarrow> 'r policy list \<Rightarrow> database \<Rightarrow> uuid option \<Rightarrow> ('r \<Rightarrow> bool) \<Rightarrow> ('r \<Rightarrow> 'r) \<Rightarrow> 'r list
    \<Rightarrow> error + 'r list" where
  "rls_update tbl ps d uid wh f rows =
    (if list_all (\<lambda>r. rls_target ps Update d uid wh r \<longrightarrow> permitted ps Update d uid (f r)) rows
     then Inr (map (\<lambda>r. if rls_target ps Update d uid wh r then f r else r) rows)
     else Inl (RlsViolation tbl))"

definition rls_insert ::
  "string \<Rightarrow> 'r policy list \<Rightarrow> database \<Rightarrow> uuid option \<Rightarrow> 'r \<Rightarrow> 'r list \<Rightarrow> error + 'r list" where
  "rls_insert tbl ps d uid r rows =
    (if permitted ps Insert d uid r then Inr (rows @ [r]) else Inl (RlsViolation tbl))"

section \<open>Reads of the catalogue\<close>

text \<open>
  A read of categories or products goes through the policies with some filter \<open>wh\<close> of
  its own. \<^verbatim>\<open>fetchProducts\<close> of \<^verbatim>\<open>Home.tsx\<close> is such a read of products: its filter
  is \<^verbatim>\<open>is_active = true\<close>, the selected category and the search term.
  \<^verbatim>\<open>fetchCategories\<close> filters on \<^verbatim>\<open>is_active = true\<close> and orders by
  \<^verbatim>\<open>sort_order\<close>, ascending with the \<^verbatim>\<open>NULL\<close>s last.
\<close>

definition select_categories :: "database \<Rightarrow> uuid option \<Rightarrow> (category_row \<Rightarrow> bool) \<Rightarrow> category_row list" where
  "select_categories d uid wh = rls_select categories_policies d uid wh (categories d)"

definition select_products :: "database \<Rightarrow> uuid option \<Rightarrow> (product_row \<Rightarrow> bool) \<Rightarrow> product_row list" where
  "select_products d uid wh = rls_select products_policies d uid wh (products d)"

definition fetchCategories :: "database \<Rightarrow> uuid option \<Rightarrow> category_row list" where
  "fetchCategories d uid =
    (let rows = select_categories d uid (\<lambda>c. category_is_active c = Some True)
     in sort_key (\<lambda>c. the (category_sort_order c)) (filter (\<lambda>c. category_sort_order c \<noteq> None) rows)
        @ filter (\<lambda>c. category_sort_order c = None) rows)"

section \<open>Ownership\<close>

text \<open>
  A profile, a cart line and an order belong to the user in their \<^verbatim>\<open>user_id\<close>; an order
  item belongs to the owner of the order it references, found through \<^verbatim>\<open>order_id\<close>.
\<close>

definition item_owner :: "database \<Rightarrow> order_item_row \<Rightarrow> uuid option" where
  "item_owner d i = map_of (map (\<lambda>r. (order_id r, order_user_id r)) (orders d)) (item_order_id i)"

text \<open>
  What it means for the rows \<open>owned\<close> by somebody else to be out of reach of the requester
  \<open>uid\<close> in the table \<open>rows\<close> under the policies \<open>ps\<close>: no read returns one of them,
  an \<^verbatim>\<open>UPDATE\<close> or \<^verbatim>\<open>DELETE\<close> aimed at them affects zero rows, any \<^verbatim>\<open>DELETE\<close> and any
  accepted \<^verbatim>\<open>UPDATE\<close> leaves them as they were and adds none, and the \<^verbatim>\<open>INSERT\<close> of such
  a row is rejected.
\<close>

definition isolated ::
  "string \<Rightarrow> 'r policy list \<Rightarrow> database \<Rightarrow> uuid option \<Rightarrow> ('r \<Rightarrow> bool) \<Rightarrow> 'r list \<Rightarrow> bool" where
  "isolated tbl ps d uid owned rows \<longleftrightarrow>
     (\<forall>wh. filter owned (rls_select ps d uid wh rows) = [])
   \<and> (\<forall>wh. rls_affected ps Update d uid (\<lambda>r. owned r \<and> wh r) rows = 0)
   \<and> (\<forall>wh. rls_affected ps Delete d uid (\<lambda>r. owned r \<and> wh r) rows = 0)
   \<and> (\<forall>wh. filter owned (rls_delete ps d uid wh rows) = filter owned rows)
   \<and> (\<forall>wh f rows'. rls_update tbl ps d uid wh f rows = Inr rows'
         \<longrightarrow> filter owned rows' = filter owned rows)
   \<and> (\<forall>r. owned r \<longrightarrow> rls_insert tbl ps d uid r rows = Inl (RlsViolation tbl))"

section \<open>The cart table\<close>

text \<open>
  \<^verbatim>\<open>INTEGER\<close> is a 32-bit column: a value outside its range is rejected, not wrapped.
\<close>

definition int4_ok :: "int \<Rightarrow> bool" where
  "int4_ok n \<longleftrightarrow> - 2147483648 \<le> n \<and> n \<le> 2147483647"

text \<open>
  A request is one transaction: a statement that is rejected changes nothing, and the
  client gets the error (which it shows as a toast).
\<close>

definition transaction :: "(database \<Rightarrow> error + database) \<Rightarrow> database \<Rightarrow> error option \<times> database" where
  "transaction body d = (case body d of Inl e \<Rightarrow> (Some e, d) | Inr d' \<Rightarrow> (None, d'))"

text \<open>
  A new cart row takes \<^verbatim>\<open>gen_random_uuid()\<close> (here \<open>newid\<close>) and \<^verbatim>\<open>now()\<close> for the
  columns the client leaves out.
\<close>

definition cart_new :: "uuid \<Rightarrow> timestamp \<Rightarrow> uuid \<Rightarrow> uuid \<Rightarrow> int \<Rightarrow> cart_row" where
  "cart_new newid now u p q =
    \<lparr>cart_id = newid, cart_user_id = u, cart_product_id = p, cart_quantity = q,
     cart_created_at = now, cart_updated_at = now\<rparr>"

text \<open>
  The constraints of \<^verbatim>\<open>public.cart\<close> on a row \<open>r\<close> that joins the rows \<open>others\<close>:
  the primary key, \<^verbatim>\<open>UNIQUE(user_id, product_id)\<close> and the two foreign keys.
\<close>

definition cart_keys :: "database \<Rightarrow> cart_row list \<Rightarrow> cart_row \<Rightarrow> error option" where
  "cart_keys d others r =
    (if cart_id r \<in> set (map cart_id others) then Some (UniqueViolation ''cart_pkey'')
     else if list_ex (\<lambda>x. cart_user_id x = cart_user_id r \<and> cart_product_id x = cart_product_id r) others
       then Some (UniqueViolation ''cart_user_id_product_id_key'')
     else if cart_user_id r \<notin> set (map auth_user_id (auth_users d))
       then Some (ForeignKeyViolation ''cart_user_id_fkey'')
     else if cart_product_id r \<notin> set (map product_id (products d))
       then Some (ForeignKeyViolation ''cart_product_id_fkey'')
     else None)"

text \<open>\<^verbatim>\<open>INSERT INTO cart\<close> by the requester \<open>uid\<close>.\<close>

definition cart_insert :: "uuid option \<Rightarrow> cart_row \<Rightarrow> database \<Rightarrow> error + database" where
  "cart_insert uid r d =
    (if \<not> int4_ok (cart_quantity r) then Inl (NumericOutOfRange ''integer'')
     else case rls_insert ''cart'' cart_policies d uid r (cart d) of
       Inl e \<Rightarrow> Inl e
     | Inr rows \<Rightarrow>
        if \<not> cart_quantity r > 0 then Inl (CheckViolation ''cart_quantity_check'')
        else (case cart_keys d (cart d) r of
                Some e \<Rightarrow> Inl e
              | None \<Rightarrow> Inr (d\<lparr>cart := rows\<rparr>)))"

text \<open>
  \<^verbatim>\<open>supabase.from('cart').upsert({user_id, product_id, quantity})\<close> is called with no
  \<^verbatim>\<open>onConflict\<close> option, so the request carries no \<^verbatim>\<open>on_conflict\<close> parameter and the
  statement that runs is
  \<^verbatim>\<open>INSERT INTO cart (user_id, product_id, quantity) ... ON CONFLICT (id) DO UPDATE SET
  user_id = EXCLUDED.user_id, product_id = EXCLUDED.product_id, quantity = EXCLUDED.quantity\<close>:
  the conflict target is the primary key. The payload has no \<^verbatim>\<open>id\<close>, so the proposed row
  \<open>r\<close> carries a generated one. Only a row with that same \<^verbatim>\<open>id\<close> turns the insert into an
  update; a clash on \<^verbatim>\<open>UNIQUE(user_id, product_id)\<close> is an error, as in a plain insert.
  The proposed row is checked against the \<^verbatim>\<open>INSERT\<close> policy in both cases; on the update path
  the existing row and its new version must pass the \<^verbatim>\<open>SELECT\<close> and \<^verbatim>\<open>UPDATE\<close>
  policies, and \<^verbatim>\<open>update_cart_updated_at\<close> stamps the row.
\<close>

definition cart_upsert :: "uuid option \<Rightarrow> timestamp \<Rightarrow> cart_row \<Rightarrow> database \<Rightarrow> error + database" where
  "cart_upsert uid now r d =
    (if \<not> int4_ok (cart_quantity r) then Inl (NumericOutOfRange ''integer'')
     else if \<not> permitted cart_policies Insert d uid r then Inl (RlsViolation ''cart'')
     else if \<not> cart_quantity r > 0 then Inl (CheckViolation ''cart_quantity_check'')
     else case filter (\<lambda>x. cart_id x = cart_id r) (cart d) of
       [] \<Rightarrow> (case cart_keys d (cart d) r of
                Some e \<Rightarrow> Inl e
              | None \<Rightarrow> Inr (d\<lparr>cart := cart d @ [r]\<rparr>))
     | x # _ \<Rightarrow>
        (let x' = x\<lparr>cart_user_id := cart_user_id r, cart_product_id := cart_product_id r,
                    cart_quantity := cart_quantity r, cart_updated_at := now\<rparr>
         in if \<not> (permitted cart_policies Select d uid x \<and> permitted cart_policies Update d uid x
                   \<and> permitted cart_policies Select d uid x' \<and> permitted cart_policies Update d uid x')
            then Inl (RlsViolation ''cart'')
            else (case cart_keys d (filter (\<lambda>y. cart_id y \<noteq> cart_id r) (cart d)) x' of
                    Some e \<Rightarrow> Inl e
                  | None \<Rightarrow>
                      Inr (d\<lparr>cart := map (\<lambda>y. if cart_id y = cart_id r then x' else y) (cart d)\<rparr>))))"

text \<open>
  \<^verbatim>\<open>.update({ quantity: q })\<close> with a filter: the keys of the touched rows stay as they are, so
  only the column type and \<^verbatim>\<open>CHECK (quantity > 0)\<close> can reject it.
\<close>

definition cart_set_quantity ::
  "uuid option \<Rightarrow> timestamp \<Rightarrow> (cart_row \<Rightarrow> bool) \<Rightarrow> int \<Rightarrow> database \<Rightarrow> error + database" where
  "cart_set_quantity uid now wh q d =
    (if \<not> int4_ok q then Inl (NumericOutOfRange ''integer'')
     else case rls_update ''cart'' cart_policies d uid wh
                 (\<lambda>r. r\<lparr>cart_quantity := q, cart_updated_at := now\<rparr>) (cart d) of
       Inl e \<Rightarrow> Inl e
     | Inr rows \<Rightarrow>
        if rls_affected cart_policies Update d uid wh (cart d) > 0 \<and> \<not> q > 0
        then Inl (CheckViolation ''cart_quantity_check'')
        else Inr (d\<lparr>cart := rows\<rparr>))"

text \<open>\<^verbatim>\<open>.delete()\<close> with a filter; no other table references a cart row.\<close>

definition cart_delete :: "uuid option \<Rightarrow> (cart_row \<Rightarrow> bool) \<Rightarrow> database \<Rightarrow> error + database" where
  "cart_delete uid wh d = Inr (d\<lparr>cart := rls_delete cart_policies d uid wh (cart d)\<rparr>)"

text \<open>The statements a client sends to the cart table, and a run of several of them.\<close>

datatype cart_statement =
    CartInsert cart_row
  | CartUpsert cart_row
  | CartSetQuantity "cart_row \<Rightarrow> bool" int
  | CartDelete "cart_row \<Rightarrow> bool"

fun cart_exec :: "uuid option \<Rightarrow> timestamp \<Rightarrow> cart_statement \<Rightarrow> database \<Rightarrow> error + database" where
  "cart_exec uid now (CartInsert r) d = cart_insert uid r d"
| "cart_exec uid now (CartUpsert r) d = cart_upsert uid now r d"
| "cart_exec uid now (CartSetQuantity wh q) d = cart_set_quantity uid now wh q d"
| "cart_exec uid now (CartDelete wh) d = cart_delete uid wh d"

fun cart_run :: "(uuid option \<times> timestamp \<times> cart_statement) list \<Rightarrow> database \<Rightarrow> database" where
  "cart_run [] d = d"
| "cart_run ((uid, now, s) # rest) d = cart_run rest (snd (transaction (cart_exec uid now s) d))"

definition cart_lines :: "database \<Rightarrow> uuid \<Rightarrow> uuid \<Rightarrow> cart_row list" where
  "cart_lines d u p = filter (\<lambda>r. cart_user_id r = u \<and> cart_product_id r = p) (cart d)"

definition cart_unique :: "database \<Rightarrow> bool" where
  "cart_unique d \<longleftrightarrow> distinct (map (\<lambda>r. (cart_user_id r, cart_product_id r)) (cart d))"

definition cart_pkey :: "database \<Rightarrow> bool" where
  "cart_pkey d \<longleftrightarrow> distinct (map cart_id (cart d))"

subsection \<open>The product card\<close>

text \<open>
  \<^verbatim>\<open>addToCart\<close> and \<^verbatim>\<open>updateQuantity\<close> of \<^verbatim>\<open>ProductCard.tsx\<close>. \<open>session\<close> is the
  signed-in user, if any; the requests go out in that user's name. The result is the error the
  catch block shows, if any, and the database afterwards.
\<close>

definition ProductCard_addToCart ::
  "uuid option \<Rightarrow> uuid \<Rightarrow> int \<Rightarrow> uuid \<Rightarrow> timestamp \<Rightarrow> database \<Rightarrow> error option \<times> database" where
  "ProductCard_addToCart session pid cartQuantity newid now d =
    (case session of
       None \<Rightarrow> (None, d)
     | Some u \<Rightarrow>
        transaction (cart_upsert session now (cart_new newid now u pid (cartQuantity + 1))) d)"

definition ProductCard_updateQuantity ::
  "uuid option \<Rightarrow> uuid \<Rightarrow> int \<Rightarrow> uuid \<Rightarrow> timestamp \<Rightarrow> database \<Rightarrow> error option \<times> database" where
  "ProductCard_updateQuantity session pid newQuantity newid now d =
    (if newQuantity < 0 then (None, d)
     else case session of
       None \<Rightarrow> (None, d)
     | Some u \<Rightarrow>
        if newQuantity = 0
        then transaction (cart_delete session (\<lambda>r. cart_user_id r = u \<and> cart_product_id r = pid)) d
        else transaction (cart_upsert session now (cart_new newid now u pid newQuantity)) d)"

subsection \<open>The cart page\<close>

text \<open>
  \<^verbatim>\<open>updateQuantity\<close> and \<^verbatim>\<open>removeFromCart\<close> of \<^verbatim>\<open>Cart.tsx\<close> address a line by its
  \<^verbatim>\<open>id\<close>.
\<close>

definition Cart_updateQuantity ::
  "uuid option \<Rightarrow> uuid \<Rightarrow> int \<Rightarrow> timestamp \<Rightarrow> database \<Rightarrow> error option \<times> database" where
  "Cart_updateQuantity session cartItemId newQuantity now d =
    (if newQuantity < 0 then (None, d)
     else if newQuantity = 0
       then transaction (cart_delete session (\<lambda>r. cart_id r = cartItemId)) d
       else transaction (cart_set_quantity session now (\<lambda>r. cart_id r = cartItemId) newQuantity) d)"

definition Cart_removeFromCart :: "uuid option \<Rightarrow> uuid \<Rightarrow> database \<Rightarrow> error option \<times> database" where
  "Cart_removeFromCart session cartItemId d =
    transaction (cart_delete session (\<lambda>r. cart_id r = cartItemId)) d"

text \<open>
  \<^verbatim>\<open>fetchCartItems\<close> reads the user's lines, each with its product (\<^verbatim>\<open>id\<close>,
  \<^verbatim>\<open>name\<close>, \<^verbatim>\<open>price\<close>, \<^verbatim>\<open>image_url\<close>, \<^verbatim>\<open>unit\<close>, \<^verbatim>\<open>stock_quantity\<close>). The
  product is read through the policy of \<^verbatim>\<open>products\<close>, so it is \<^verbatim>\<open>null\<close> for a line whose
  product is not visible.
\<close>

record CartProduct =
  cp_id :: uuid
  cp_name :: string
  cp_price :: decimal
  cp_image_url :: "string option"
  cp_unit :: "string option"
  cp_stock_quantity :: "int option"

record CartItemWithProduct =
  ci_id :: uuid
  ci_quantity :: int
  ci_product :: "CartProduct option"

definition cart_item_view :: "database \<Rightarrow> uuid option \<Rightarrow> cart_row \<Rightarrow> CartItemWithProduct" where
  "cart_item_view d uid r =
    \<lparr>ci_id = cart_id r, ci_quantity = cart_quantity r,
     ci_product =
       (case rls_select products_policies d uid (\<lambda>p. product_id p = cart_product_id r) (products d) of
          [] \<Rightarrow> None
        | p # _ \<Rightarrow>
            Some \<lparr>cp_id = product_id p, cp_name = product_name p, cp_price = product_price p,
                  cp_image_url = product_image_url p, cp_unit = product_unit p,
                  cp_stock_quantity = product_stock_quantity p\<rparr>)\<rparr>"

definition fetchCartItems :: "database \<Rightarrow> uuid option \<Rightarrow> CartItemWithProduct list" where
  "fetchCartItems d user =
    (case user of
       None \<Rightarrow> []
     | Some u \<Rightarrow>
        map (cart_item_view d user)
          (rls_select cart_policies d user (\<lambda>r. cart_user_id r = u) (cart d)))"

text \<open>
  \<^verbatim>\<open>calculateTotal\<close> reduces the fetched lines from 0, adding price times quantity;
  reading the price of a \<^verbatim>\<open>null\<close> product throws, which is the result \<open>None\<close>.
  \<^verbatim>\<open>calculateItemCount\<close> adds the quantities. The page computes with doubles; amounts are
  exact hundredths here, so a total is the exact sum, without the rounding of doubles.
\<close>

fun calculateTotal_from :: "decimal \<Rightarrow> CartItemWithProduct list \<Rightarrow> decimal option" where
  "calculateTotal_from subtotal [] = Some subtotal"
| "calculateTotal_from subtotal (item # rest) =
    (case ci_product item of
       None \<Rightarrow> None
     | Some p \<Rightarrow> calculateTotal_from (subtotal + cp_price p * ci_quantity item) rest)"

definition calculateTotal :: "CartItemWithProduct list \<Rightarrow> decimal option" where
  "calculateTotal cartItems = calculateTotal_from 0 cartItems"

definition calculateItemCount :: "CartItemWithProduct list \<Rightarrow> int" where
  "calculateItemCount cartItems = foldl (\<lambda>count item. count + ci_quantity item) 0 cartItems"

section \<open>Profile provisioning\<close>

text \<open>
  \<^verbatim>\<open>handle_new_user\<close> inserts \<^verbatim>\<open>(user_id, full_name)\<close>; the other columns take their
  defaults. The function is \<^verbatim>\<open>SECURITY DEFINER\<close>, so the insert runs as the owner of the
  table and the policies of \<^verbatim>\<open>profiles\<close> do not apply; the constraints of the table do.
\<close>

definition profile_new :: "uuid \<Rightarrow> timestamp \<Rightarrow> uuid \<Rightarrow> string option \<Rightarrow> profile_row" where
  "profile_new newid now u fn =
    \<lparr>profile_id = newid, profile_user_id = u, profile_full_name = fn, profile_phone = None,
     profile_language = Some ''en'', profile_data_collection_consent = Some False,
     profile_created_at = now, profile_updated_at = now\<rparr>"

definition profiles_constraints :: "database \<Rightarrow> profile_row \<Rightarrow> error option" where
  "profiles_constraints d r =
    (if \<not> (case profile_language r of None \<Rightarrow> True | Some l \<Rightarrow> l \<in> set [''en'', ''hi''])
       then Some (CheckViolation ''profiles_language_check'')
     else if profile_id r \<in> set (map profile_id (profiles d))
       then Some (UniqueViolation ''profiles_pkey'')
     else if profile_user_id r \<in> set (map profile_user_id (profiles d))
       then Some (UniqueViolation ''profiles_user_id_key'')
     else if profile_user_id r \<notin> set (map auth_user_id (auth_users d))
       then Some (ForeignKeyViolation ''profiles_user_id_fkey'')
     else None)"

definition handle_new_user :: "auth_user \<Rightarrow> uuid \<Rightarrow> timestamp \<Rightarrow> database \<Rightarrow> error + database" where
  "handle_new_user new newid now d =
    (let r = profile_new newid now (auth_user_id new)
               (json_get_text (raw_user_meta_data new) ''full_name'')
     in case profiles_constraints d r of
          Some e \<Rightarrow> Inl e
        | None \<Rightarrow> Inr (d\<lparr>profiles := profiles d @ [r]\<rparr>))"

text \<open>
  \<^verbatim>\<open>on_auth_user_created\<close> runs the function after each insert on \<^verbatim>\<open>auth.users\<close>, inside
  the inserting statement: when the trigger fails, the identity is not created either. Of
  \<^verbatim>\<open>auth.users\<close>, which belongs to the authentication service, only the key and the
  metadata column the trigger reads are kept.
\<close>

definition on_auth_user_created :: "auth_user \<Rightarrow> uuid \<Rightarrow> timestamp \<Rightarrow> database \<Rightarrow> error + database" where
  "on_auth_user_created new newid now d =
    (if auth_user_id new \<in> set (map auth_user_id (auth_users d))
     then Inl (UniqueViolation ''users_pkey'')
     else handle_new_user new newid now (d\<lparr>auth_users := auth_users d @ [new]\<rparr>))"

text \<open>
  The signup branch of \<^verbatim>\<open>handleSubmit\<close> in \<^verbatim>\<open>AuthForm.tsx\<close>: without consent nothing is
  sent; otherwise \<^verbatim>\<open>signUp\<close> creates the identity \<open>uid\<close> with the four form fields as its
  metadata.
\<close>

definition signUp_data :: "string \<Rightarrow> string \<Rightarrow> string \<Rightarrow> bool \<Rightarrow> (string \<times> json) list" where
  "signUp_data fullName phone language dataConsent =
    [(''full_name'', JStr fullName), (''phone'', JStr phone), (''language'', JStr language),
     (''data_collection_consent'', JBool dataConsent)]"

definition handleSubmit_signup ::
  "string \<Rightarrow> string \<Rightarrow> string \<Rightarrow> bool \<Rightarrow> uuid \<Rightarrow> uuid \<Rightarrow> timestamp \<Rightarrow> database
    \<Rightarrow> error option \<times> database" where
  "handleSubmit_signup fullName phone language dataConsent uid newid now d =
    (if \<not> dataConsent then (None, d)
     else transaction
            (on_auth_user_created
               \<lparr>auth_user_id = uid,
                raw_user_meta_data = signUp_data fullName phone language dataConsent\<rparr> newid now) d)"

definition profiles_fkey :: "database \<Rightarrow> bool" where
  "profiles_fkey d \<longleftrightarrow>
    list_all (\<lambda>r. profile_user_id r \<in> set (map auth_user_id (auth_users d))) (profiles d)"

section \<open>Orders\<close>

text \<open>
  \<^verbatim>\<open>fetchOrders\<close> reads the user's orders, newest first, each with its items
  (\<^verbatim>\<open>quantity\<close>, \<^verbatim>\<open>unit_price\<close>) and, per item, the name and image of the product. Every
  level is read through the policies of its table, so the product of an item is missing
  when the product is not visible.
\<close>

record OrderItemProduct =
  oip_name :: string
  oip_image_url :: "string option"

record OrderItemView =
  oiv_quantity :: int
  oiv_unit_price :: decimal
  oiv_product :: "OrderItemProduct option"

record OrderView =
  ov_id :: uuid
  ov_total_amount :: decimal
  ov_delivery_fee :: "decimal option"
  ov_status :: "string option"
  ov_payment_method :: "string option"
  ov_created_at :: timestamp
  ov_order_items :: "OrderItemView list"

definition item_view :: "database \<Rightarrow> uuid option \<Rightarrow> order_item_row \<Rightarrow> OrderItemView" where
  "item_view d uid i =
    \<lparr>oiv_quantity = item_quantity i, oiv_unit_price = item_unit_price i,
     oiv_product =
       (case rls_select products_policies d uid (\<lambda>p. product_id p = item_product_id i) (products d) of
          [] \<Rightarrow> None
        | p # _ \<Rightarrow> Some \<lparr>oip_name = product_name p, oip_image_url = product_image_url p\<rparr>)\<rparr>"

definition order_view :: "database \<Rightarrow> uuid option \<Rightarrow> order_row \<Rightarrow> OrderView" where
  "order_view d uid r =
    \<lparr>ov_id = order_id r, ov_total_amount = order_total_amount r,
     ov_delivery_fee = order_delivery_fee r, ov_status = order_status r,
     ov_payment_method = order_payment_method r, ov_created_at = order_created_at r,
     ov_order_items =
       map (item_view d uid)
         (rls_select order_items_policies d uid (\<lambda>i. item_order_id i = order_id r) (order_items d))\<rparr>"

definition fetchOrders :: "database \<Rightarrow> uuid option \<Rightarrow> OrderView list" where
  "fetchOrders d user =
    (case user of
       None \<Rightarrow> []
     | Some u \<Rightarrow>
        map (order_view d user)
          (sort_key (\<lambda>r. - order_created_at r)
             (rls_select orders_policies d user (\<lambda>r. order_user_id r = u) (orders d))))"

text \<open>
  \<^verbatim>\<open>DECIMAL(10,2)\<close> holds at most eight digits before the point.
\<close>

definition decimal_10_2_ok :: "decimal \<Rightarrow> bool" where
  "decimal_10_2_ok v \<longleftrightarrow> - 10000000000 < v \<and> v < 10000000000"

text \<open>
  A change of \<^verbatim>\<open>products.price\<close>. No policy lets a client update a product, so the change
  comes from a role that bypasses row level security:
  \<^verbatim>\<open>UPDATE products SET price = v WHERE ...\<close>; \<^verbatim>\<open>update_products_updated_at\<close> stamps
  the rows it touches.
\<close>

definition update_product_price ::
  "(product_row \<Rightarrow> bool) \<Rightarrow> decimal \<Rightarrow> timestamp \<Rightarrow> database \<Rightarrow> error + database" where
  "update_product_price wh v now d =
    (if \<not> decimal_10_2_ok v then Inl (NumericOutOfRange ''numeric'')
     else Inr (d\<lparr>products :=
                 map (\<lambda>p. if wh p then p\<lparr>product_price := v, product_updated_at := now\<rparr> else p)
                   (products d)\<rparr>))"

text \<open>
  \<^verbatim>\<open>INSERT INTO orders\<close> and \<^verbatim>\<open>INSERT INTO order_items\<close> by the requester \<open>uid\<close>, with
  the column types, policies, checks and keys of the two tables. The checks of a table are
  tested in the order of their names, \<^verbatim>\<open>orders_payment_method_check\<close> before
  \<^verbatim>\<open>orders_status_check\<close>.
\<close>

definition orders_insert :: "uuid option \<Rightarrow> order_row \<Rightarrow> database \<Rightarrow> error + database" where
  "orders_insert uid r d =
    (if \<not> (decimal_10_2_ok (order_total_amount r)
            \<and> (case order_delivery_fee r of None \<Rightarrow> True | Some v \<Rightarrow> decimal_10_2_ok v)
            \<and> (case order_discount_amount r of None \<Rightarrow> True | Some v \<Rightarrow> decimal_10_2_ok v))
       then Inl (NumericOutOfRange ''numeric'')
     else case rls_insert ''orders'' orders_policies d uid r (orders d) of
       Inl e \<Rightarrow> Inl e
     | Inr rows \<Rightarrow>
        if \<not> (case order_payment_method r of None \<Rightarrow> True | Some v \<Rightarrow> v \<in> set [''cod'', ''online''])
          then Inl (CheckViolation ''orders_payment_method_check'')
        else if \<not> (case order_status r of None \<Rightarrow> True
                | Some v \<Rightarrow> v \<in> set [''pending'', ''confirmed'', ''shipped'', ''delivered'', ''cancelled''])
          then Inl (CheckViolation ''orders_status_check'')
        else if order_id r \<in> set (map order_id (orders d))
          then Inl (UniqueViolation ''orders_pkey'')
        else if order_user_id r \<notin> set (map auth_user_id (auth_users d))
          then Inl (ForeignKeyViolation ''orders_user_id_fkey'')
        else Inr (d\<lparr>orders := rows\<rparr>))"

definition order_items_insert :: "uuid option \<Rightarrow> order_item_row \<Rightarrow> database \<Rightarrow> error + database" where
  "order_items_insert uid r d =
    (if \<not> int4_ok (item_quantity r) then Inl (NumericOutOfRange ''integer'')
     else if \<not> (decimal_10_2_ok (item_unit_price r) \<and> decimal_10_2_ok (item_total_price r))
       then Inl (NumericOutOfRange ''numeric'')
     else case rls_insert ''order_items'' order_items_policies d uid r (order_items d) of
       Inl e \<Rightarrow> Inl e
     | Inr rows \<Rightarrow>
        if \<not> item_quantity r > 0 then Inl (CheckViolation ''order_items_quantity_check'')
        else if item_id r \<in> set (map item_id (order_items d))
          then Inl (UniqueViolation ''order_items_pkey'')
        else if item_order_id r \<notin> set (map order_id (orders d))
          then Inl (ForeignKeyViolation ''order_items_order_id_fkey'')
        else if item_product_id r \<notin> set (map product_id (products d))
          then Inl (ForeignKeyViolation ''order_items_product_id_fkey'')
        else Inr (d\<lparr>order_items := rows\<rparr>))"

section \<open>Checkout\<close>

text \<open>
  Modelled from the spec: the checkout operation of section 4.4. No source file contains it;
  the cart page only navigates to \<^verbatim>\<open>/checkout\<close>. As the spec words it: for the cart lines
  of a user, an address, a phone, a payment method and a delivery fee, (1) create one order
  with \<^verbatim>\<open>total_amount\<close> = sum of (product price at this instant times quantity) + delivery
  fee and \<^verbatim>\<open>status = pending\<close>, (2) create one order item per cart line with
  \<^verbatim>\<open>unit_price\<close> and \<^verbatim>\<open>total_price\<close> taken from the product's current price, (3) clear
  the cart lines that were materialized; the three steps are one transaction. The inserts are
  those of the migration's tables, made in the user's name; \<open>gen\<close> is the sequence of
  identifiers that \<^verbatim>\<open>gen_random_uuid()\<close> hands out. A line whose product is gone is a
  referential-integrity failure (section 7).
\<close>

definition current_price :: "database \<Rightarrow> uuid \<Rightarrow> decimal option" where
  "current_price d pid = map_option product_price (find (\<lambda>p. product_id p = pid) (products d))"

fun checkout_subtotal :: "database \<Rightarrow> cart_row list \<Rightarrow> decimal option" where
  "checkout_subtotal d [] = Some 0"
| "checkout_subtotal d (l # ls) =
    (case current_price d (cart_product_id l) of
       None \<Rightarrow> None
     | Some v \<Rightarrow> map_option (\<lambda>rest. v * cart_quantity l + rest) (checkout_subtotal d ls))"

definition checkout_item :: "timestamp \<Rightarrow> uuid \<Rightarrow> uuid \<Rightarrow> decimal \<Rightarrow> cart_row \<Rightarrow> order_item_row" where
  "checkout_item now oid newid v l =
    \<lparr>item_id = newid, item_order_id = oid, item_product_id = cart_product_id l,
     item_quantity = cart_quantity l, item_unit_price = v, item_total_price = v * cart_quantity l,
     item_created_at = now\<rparr>"

fun checkout_items ::
  "uuid option \<Rightarrow> timestamp \<Rightarrow> uuid \<Rightarrow> (nat \<Rightarrow> uuid) \<Rightarrow> nat \<Rightarrow> cart_row list \<Rightarrow> database
    \<Rightarrow> error + database" where
  "checkout_items uid now oid gen k [] d = Inr d"
| "checkout_items uid now oid gen k (l # ls) d =
    (case current_price d (cart_product_id l) of
       None \<Rightarrow> Inl (ForeignKeyViolation ''order_items_product_id_fkey'')
     | Some v \<Rightarrow>
        (case order_items_insert uid (checkout_item now oid (gen k) v l) d of
           Inl e \<Rightarrow> Inl e
         | Inr d' \<Rightarrow> checkout_items uid now oid gen (Suc k) ls d'))"

definition checkout_order ::
  "timestamp \<Rightarrow> uuid \<Rightarrow> uuid \<Rightarrow> string \<Rightarrow> string \<Rightarrow> string \<Rightarrow> decimal \<Rightarrow> decimal \<Rightarrow> order_row" where
  "checkout_order now newid user address phone payment fee subtotal =
    \<lparr>order_id = newid, order_user_id = user, order_total_amount = subtotal + fee,
     order_delivery_fee = Some fee, order_discount_amount = Some 0,
     order_status = Some ''pending'', order_payment_method = Some payment,
     order_delivery_address = address, order_phone = phone,
     order_created_at = now, order_updated_at = now\<rparr>"

definition checkout_steps ::
  "uuid \<Rightarrow> string \<Rightarrow> string \<Rightarrow> string \<Rightarrow> decimal \<Rightarrow> (nat \<Rightarrow> uuid) \<Rightarrow> timestamp \<Rightarrow> database
    \<Rightarrow> error + database" where
  "checkout_steps user address phone payment fee gen now d =
    (let lines = filter (\<lambda>l. cart_user_id l = user) (cart d)
     in case checkout_subtotal d lines of
       None \<Rightarrow> Inl (ForeignKeyViolation ''order_items_product_id_fkey'')
     | Some subtotal \<Rightarrow>
        (case orders_insert (Some user)
                (checkout_order now (gen 0) user address phone payment fee subtotal) d of
           Inl e \<Rightarrow> Inl e
         | Inr d1 \<Rightarrow>
            (case checkout_items (Some user) now (gen 0) gen 1 lines d1 of
               Inl e \<Rightarrow> Inl e
             | Inr d2 \<Rightarrow> cart_delete (Some user) (\<lambda>l. cart_user_id l = user) d2)))"

definition checkout ::
  "uuid \<Rightarrow> string \<Rightarrow> string \<Rightarrow> string \<Rightarrow> decimal \<Rightarrow> (nat \<Rightarrow> uuid) \<Rightarrow> timestamp \<Rightarrow> database
    \<Rightarrow> error option \<times> database" where
  "checkout user address phone payment fee gen now d =
    transaction (checkout_steps user address phone payment fee gen now) d"

text \<open>
  The order item \<open>i\<close> that stands for the cart line \<open>l\<close> in the order \<open>oid\<close>: same
  product and quantity, the product's price in \<open>d\<close> as unit price, and unit price times
  quantity as total price.
\<close>

definition line_item :: "database \<Rightarrow> uuid \<Rightarrow> cart_row \<Rightarrow> order_item_row \<Rightarrow> bool" where
  "line_item d oid l i \<longleftrightarrow>
     item_order_id i = oid \<and> item_product_id i = cart_product_id l
   \<and> item_quantity i = cart_quantity l
   \<and> current_price d (cart_product_id l) = Some (item_unit_price i)
   \<and> item_total_price i = item_unit_price i * item_quantity i"

section \<open>Example data\<close>

text \<open>
  A small database in the shape of the migration's sample rows: two users with their profiles,
  an active and an inactive category, Banana at 40.00, Milk at 55.00 and an inactive product,
  the cart of user 1 (two Banana, one Milk), a line of user 2, and an earlier order of user 1
  for one Banana at 40.00.
\<close>

definition example_product :: "uuid \<Rightarrow> string \<Rightarrow> decimal \<Rightarrow> bool \<Rightarrow> product_row" where
  "example_product i n v a =
    \<lparr>product_id = i, product_name = n, product_name_hi = None, product_description = None,
     product_description_hi = None, product_price = v, product_original_price = None,
     product_discount_percentage = Some 0, product_image_url = None, product_category_id = None,
     product_brand = None, product_unit = Some ''kg'', product_stock_quantity = Some 100,
     product_is_active = Some a, product_created_at = 0, product_updated_at = 0\<rparr>"

definition example_category :: "uuid \<Rightarrow> string \<Rightarrow> bool \<Rightarrow> category_row" where
  "example_category i n a =
    \<lparr>category_id = i, category_name = n, category_name_hi = None, category_icon_url = None,
     category_sort_order = Some 1, category_is_active = Some a, category_created_at = 0\<rparr>"

definition example_order :: order_row where
  "example_order =
    \<lparr>order_id = 40, order_user_id = 1, order_total_amount = 6000, order_delivery_fee = Some 2000,
     order_discount_amount = Some 0, order_status = Some ''delivered'',
     order_payment_method = Some ''cod'', order_delivery_address = ''12 Park Road'',
     order_phone = ''5550100'', order_created_at = 0, order_updated_at = 0\<rparr>"

definition example_item :: order_item_row where
  "example_item =
    \<lparr>item_id = 50, item_order_id = 40, item_product_id = 10, item_quantity = 1,
     item_unit_price = 4000, item_total_price = 4000, item_created_at = 0\<rparr>"

definition example_db :: database where
  "example_db =
    \<lparr>auth_users = [\<lparr>auth_user_id = 1, raw_user_meta_data = []\<rparr>,
                   \<lparr>auth_user_id = 2, raw_user_meta_data = []\<rparr>],
     profiles = [profile_new 60 0 1 None, profile_new 61 0 2 None],
     categories = [example_category 20 ''Dairy'' True, example_category 21 ''Closed'' False],
     products = [example_product 10 ''Banana'' 4000 True, example_product 11 ''Milk'' 5500 True,
                 example_product 12 ''Soap'' 3000 False],
     cart = [cart_new 30 0 1 10 2, cart_new 31 0 1 11 1, cart_new 32 0 2 10 5],
     orders = [example_order],
     order_items = [example_item]\<rparr>"

section \<open>The policies, spelled out\<close>

lemma permitted_categories:
  "permitted categories_policies c d uid r \<longleftrightarrow> c = Select \<and> category_is_active r = Some True"
  by (cases "category_is_active r") (auto simp: permitted_def categories_policies_def sql_eq_def)

lemma permitted_products:
  "permitted products_policies c d uid r \<longleftrightarrow> c = Select \<and> product_is_active r = Some True"
  by (cases "product_is_active r") (auto simp: permitted_def products_policies_def sql_eq_def)

lemma permitted_profiles:
  "permitted profiles_policies c d uid r \<longleftrightarrow>
     c \<in> {Select, Update, Insert} \<and> uid = Some (profile_user_id r)"
  by (cases uid) (auto simp: permitted_def profiles_policies_def sql_eq_def)

lemma permitted_cart:
  "permitted cart_policies c d uid r \<longleftrightarrow> uid = Some (cart_user_id r)"
  by (cases uid; cases c) (auto simp: permitted_def cart_policies_def sql_eq_def)

lemma permitted_orders:
  "permitted orders_policies c d uid r \<longleftrightarrow> c \<in> {Select, Insert} \<and> uid = Some (order_user_id r)"
  by (cases uid) (auto simp: permitted_def orders_policies_def sql_eq_def)

lemma own_order_ids_eq:
  "own_order_ids d uid = map order_id (filter (\<lambda>r. uid = Some (order_user_id r)) (orders d))"
  unfolding own_order_ids_def permitted_orders
  by (cases uid) (auto simp: sql_eq_def intro!: arg_cong[where f="map order_id"] filter_cong)

lemma permitted_order_items:
  "permitted order_items_policies c d uid r \<longleftrightarrow>
     c \<in> {Select, Insert} \<and> item_order_id r \<in> set (own_order_ids d uid)"
  by (auto simp: permitted_def order_items_policies_def sql_in_def)

section \<open>Catalogue reads show active rows only\<close>

lemma set_fetchCategories:
  "set (fetchCategories d uid) = {c \<in> set (categories d). category_is_active c = Some True}"
  by (auto simp: fetchCategories_def Let_def select_categories_def rls_select_def
      permitted_categories)

text \<open>
  C9. Whoever asks, signed in (\<open>uid = Some u\<close>) or anonymous (\<open>uid = None\<close>), and whatever
  the filter of the request, a read of categories or products returns active rows only, and
  it returns every active row that the filter selects: the result does not depend on the
  requester. A row whose \<^verbatim>\<open>is_active\<close> is false or \<^verbatim>\<open>NULL\<close> is never in it.
\<close>

theorem catalogue_reads_active_only:
  "(\<forall>c\<in>set (select_categories d uid wh). category_is_active c = Some True)
   \<and> (\<forall>p\<in>set (select_products d uid wh'). product_is_active p = Some True)
   \<and> select_categories d uid wh
       = filter (\<lambda>c. category_is_active c = Some True \<and> wh c) (categories d)
   \<and> select_products d uid wh'
       = filter (\<lambda>p. product_is_active p = Some True \<and> wh' p) (products d)
   \<and> set (fetchCategories d uid) = {c \<in> set (categories d). category_is_active c = Some True}"
  by (simp add: select_categories_def select_products_def rls_select_def set_fetchCategories
      permitted_categories permitted_products)

theorem catalogue_reads_active_only_witness:
  "select_categories example_db None (\<lambda>c. True) = [example_category 20 ''Dairy'' True]
   \<and> select_products example_db (Some 2) (\<lambda>p. True)
       = [example_product 10 ''Banana'' 4000 True, example_product 11 ''Milk'' 5500 True]"
  using catalogue_reads_active_only [of example_db None "\<lambda>c. True" "\<lambda>p. True"]
    catalogue_reads_active_only [of example_db "Some 2" "\<lambda>c. True" "\<lambda>p. True"]
  by (simp add: example_db_def example_category_def example_product_def)

section \<open>Nobody reaches another user's rows\<close>

lemma item_owner_own:
  assumes "distinct (map order_id (orders d))" and "item_order_id r \<in> set (own_order_ids d uid)"
  shows "uid = item_owner d r"
proof -
  from assms(2) obtain x where x: "x \<in> set (orders d)" "uid = Some (order_user_id x)"
    "order_id x = item_order_id r"
    by (auto simp: own_order_ids_eq)
  have "distinct (map fst (map (\<lambda>r. (order_id r, order_user_id r)) (orders d)))"
    using assms(1) by (simp add: comp_def)
  moreover have "(item_order_id r, order_user_id x)
      \<in> set (map (\<lambda>r. (order_id r, order_user_id r)) (orders d))"
    using x by force
  ultimately have "map_of (map (\<lambda>r. (order_id r, order_user_id r)) (orders d)) (item_order_id r)
      = Some (order_user_id x)"
    by (rule map_of_is_SomeI)
  then show ?thesis using x by (simp add: item_owner_def)
qed

lemma isolatedI:
  assumes "\<And>c r. permitted ps c d uid r \<Longrightarrow> \<not> owned r"
  shows "isolated tbl ps d uid owned rows"
proof -
  have sel: "filter owned (rls_select ps d uid wh rows) = []" for wh
    using assms by (auto simp: rls_select_def filter_empty_conv)
  have aff: "rls_affected ps c d uid (\<lambda>r. owned r \<and> wh r) rows = 0" for c wh
    using assms by (auto simp: rls_affected_def rls_target_def filter_empty_conv)
  have del: "filter owned (rls_delete ps d uid wh rows) = filter owned rows" for wh
    using assms by (auto simp: rls_delete_def rls_target_def intro: filter_cong)
  have upd: "filter owned rows' = filter owned rows"
    if "rls_update tbl ps d uid wh f rows = Inr rows'" for wh f rows'
  proof -
    from that have checked:
        "list_all (\<lambda>r. rls_target ps Update d uid wh r \<longrightarrow> permitted ps Update d uid (f r)) rows"
      and rows': "rows' = map (\<lambda>r. if rls_target ps Update d uid wh r then f r else r) rows"
      by (auto simp: rls_update_def split: if_splits)
    show ?thesis unfolding rows' using checked
    proof (induction rows)
      case Nil
      then show ?case by simp
    next
      case (Cons a rows)
      then show ?case using assms by (auto simp: rls_target_def)
    qed
  qed
  have ins: "rls_insert tbl ps d uid r rows = Inl (RlsViolation tbl)" if "owned r" for r
    using assms that by (auto simp: rls_insert_def)
  show ?thesis
    unfolding isolated_def using sel aff del upd ins by blast
qed

lemma filter_map_others:
  assumes "\<And>y. y \<in> set xs \<Longrightarrow> Q y \<Longrightarrow> g y = y"
    and "\<And>y. y \<in> set xs \<Longrightarrow> \<not> Q y \<Longrightarrow> \<not> Q (g y)"
  shows "filter Q (map g xs) = filter Q xs"
  using assms by (induction xs) auto

lemma cart_exec_other_user:
  assumes "u1 \<noteq> u2" "cart_pkey d" "cart_exec (Some u2) now s d = Inr d'"
  shows "filter (\<lambda>r. cart_user_id r = u1) (cart d') = filter (\<lambda>r. cart_user_id r = u1) (cart d)"
proof (cases s)
  case (CartInsert r)
  with assms show ?thesis
    by (auto simp: cart_insert_def rls_insert_def permitted_cart split: if_splits option.splits)
next
  case (CartUpsert r)
  show ?thesis
  proof (cases "filter (\<lambda>x. cart_id x = cart_id r) (cart d)")
    case Nil
    with assms CartUpsert show ?thesis
      by (auto simp: cart_upsert_def permitted_cart split: if_splits option.splits)
  next
    case (Cons x rest)
    define x' where "x' = x\<lparr>cart_user_id := cart_user_id r, cart_product_id := cart_product_id r,
                    cart_quantity := cart_quantity r, cart_updated_at := now\<rparr>"
    from Cons have "x \<in> set (filter (\<lambda>x. cart_id x = cart_id r) (cart d))" by simp
    then have xin: "x \<in> set (cart d)" and idx: "cart_id x = cart_id r" by simp_all
    from assms(3) CartUpsert Cons have own: "cart_user_id x = u2" "cart_user_id r = u2"
      and d': "d' = d\<lparr>cart := map (\<lambda>y. if cart_id y = cart_id r then x' else y) (cart d)\<rparr>"
      by (auto simp: cart_upsert_def Let_def x'_def permitted_cart split: if_splits option.splits)
    have one: "y = x" if "y \<in> set (cart d)" "cart_id y = cart_id r" for y
      using assms(2) that xin idx unfolding cart_pkey_def
      by (metis distinct_map inj_onD)
    have "filter (\<lambda>r. cart_user_id r = u1) (map (\<lambda>y. if cart_id y = cart_id r then x' else y) (cart d))
          = filter (\<lambda>r. cart_user_id r = u1) (cart d)"
      using one own assms(1) by (intro filter_map_others) (auto simp: x'_def)
    then show ?thesis by (simp add: d')
  qed
next
  case (CartSetQuantity wh q)
  let ?g = "\<lambda>r. if rls_target cart_policies Update d (Some u2) wh r
                then r\<lparr>cart_quantity := q, cart_updated_at := now\<rparr> else r"
  from assms(3) CartSetQuantity have d': "d' = d\<lparr>cart := map ?g (cart d)\<rparr>"
    by (auto simp: cart_set_quantity_def rls_update_def split: if_splits)
  have "filter (\<lambda>r. cart_user_id r = u1) (map ?g (cart d)) = filter (\<lambda>r. cart_user_id r = u1) (cart d)"
    using assms(1) by (intro filter_map_others) (auto simp: rls_target_def permitted_cart)
  then show ?thesis by (simp add: d')
next
  case (CartDelete wh)
  with assms show ?thesis
    by (auto simp: cart_delete_def rls_delete_def rls_target_def permitted_cart intro: filter_cong)
qed

text \<open>
  C1. Let \<open>u1\<close> and \<open>u2\<close> be different users and let \<open>u2\<close> send the requests. In each of
  the four tables the rows owned by \<open>u1\<close> (for an order item: the rows whose parent order is
  owned by \<open>u1\<close>) are out of reach in the sense of \<open>isolated\<close>: no read returns one, an
  update or delete aimed at them affects zero rows, no delete and no accepted update changes
  them, and inserting a row in the name of \<open>u1\<close> is rejected. The same holds for the cart
  statements as the client sends them, the upsert included: whatever \<open>u2\<close> sends, the cart
  lines of \<open>u1\<close> are afterwards what they were. The primary key of \<^verbatim>\<open>orders\<close> is what
  makes the parent of an item, and so its owner, unique; the primary key of \<^verbatim>\<open>cart\<close> is
  what makes the row that an upsert updates unique.
\<close>

theorem cross_user_isolation:
  assumes "u1 \<noteq> u2" and "distinct (map order_id (orders d))" and "cart_pkey d"
  shows "isolated ''profiles'' profiles_policies d (Some u2)
           (\<lambda>r. profile_user_id r = u1) (profiles d)
       \<and> isolated ''cart'' cart_policies d (Some u2)
           (\<lambda>r. cart_user_id r = u1) (cart d)
       \<and> isolated ''orders'' orders_policies d (Some u2)
           (\<lambda>r. order_user_id r = u1) (orders d)
       \<and> isolated ''order_items'' order_items_policies d (Some u2)
           (\<lambda>r. item_owner d r = Some u1) (order_items d)
       \<and> (\<forall>now s d'. cart_exec (Some u2) now s d = Inr d'
             \<longrightarrow> filter (\<lambda>r. cart_user_id r = u1) (cart d')
                 = filter (\<lambda>r. cart_user_id r = u1) (cart d))"
proof (intro conjI isolatedI allI impI)
  fix c r assume "permitted profiles_policies c d (Some u2) r"
  then show "profile_user_id r \<noteq> u1" using assms(1) by (auto simp: permitted_profiles)
next
  fix c r assume "permitted cart_policies c d (Some u2) r"
  then show "cart_user_id r \<noteq> u1" using assms(1) by (auto simp: permitted_cart)
next
  fix c r assume "permitted orders_policies c d (Some u2) r"
  then show "order_user_id r \<noteq> u1" using assms(1) by (auto simp: permitted_orders)
next
  fix c r assume "permitted order_items_policies c d (Some u2) r"
  then have "item_order_id r \<in> set (own_order_ids d (Some u2))"
    by (simp add: permitted_order_items)
  then have "Some u2 = item_owner d r" by (rule item_owner_own[OF assms(2)])
  then show "item_owner d r \<noteq> Some u1" using assms(1) by auto
next
  fix now s d' assume "cart_exec (Some u2) now s d = Inr d'"
  then show "filter (\<lambda>r. cart_user_id r = u1) (cart d') = filter (\<lambda>r. cart_user_id r = u1) (cart d)"
    by (rule cart_exec_other_user[OF assms(1,3)])
qed

theorem cross_user_isolation_witness:
  "(1::nat) \<noteq> 2 \<and> distinct (map order_id (orders example_db)) \<and> cart_pkey example_db
   \<and> isolated ''profiles'' profiles_policies example_db (Some 2)
       (\<lambda>r. profile_user_id r = 1) (profiles example_db)
   \<and> isolated ''cart'' cart_policies example_db (Some 2)
       (\<lambda>r. cart_user_id r = 1) (cart example_db)
   \<and> isolated ''orders'' orders_policies example_db (Some 2)
       (\<lambda>r. order_user_id r = 1) (orders example_db)
   \<and> isolated ''order_items'' order_items_policies example_db (Some 2)
       (\<lambda>r. item_owner example_db r = Some 1) (order_items example_db)"
proof -
  have h1: "(1::nat) \<noteq> 2" by simp
  have h2: "distinct (map order_id (orders example_db))"
    by (simp add: example_db_def example_order_def)
  have h3: "cart_pkey example_db"
    by (simp add: cart_pkey_def example_db_def cart_new_def)
  show ?thesis using h1 h2 h3 cross_user_isolation [OF h1 h2 h3] by blast
qed

section \<open>One cart line per user and product\<close>

lemma cart_keys_None:
  assumes "cart_keys d others r = None"
  shows "(cart_user_id r, cart_product_id r) \<notin> set (map (\<lambda>x. (cart_user_id x, cart_product_id x)) others)"
    and "cart_id r \<notin> set (map cart_id others)"
  using assms by (auto simp: cart_keys_def list_ex_iff split: if_splits)

lemma cart_insert_inv:
  assumes "cart_pkey d" "cart_unique d" "cart_insert uid r d = Inr d'"
  shows "cart_pkey d' \<and> cart_unique d'"
proof -
  from assms(3) have k: "cart_keys d (cart d) r = None" and d': "d' = d\<lparr>cart := cart d @ [r]\<rparr>"
    by (auto simp: cart_insert_def rls_insert_def split: if_splits option.splits)
  show ?thesis using assms(1,2) cart_keys_None[OF k] by (simp add: d' cart_unique_def cart_pkey_def)
qed

lemma filter_key_le1: "distinct (map f xs) \<Longrightarrow> length (filter (\<lambda>y. f y = i) xs) \<le> 1"
proof (induction xs)
  case Nil then show ?case by simp
next
  case (Cons a xs)
  show ?case
  proof (cases "f a = i")
    case True
    from Cons.prems have "f a \<notin> f ` set xs" by simp
    with True have "\<forall>y\<in>set xs. f y \<noteq> i" by blast
    then have "filter (\<lambda>y. f y = i) xs = []" by (simp add: filter_empty_conv)
    with True show ?thesis by simp
  next
    case False
    with Cons show ?thesis by simp
  qed
qed

lemma distinct_map_replace:
  assumes "distinct (map k xs)" and "k x' \<notin> set (map k (filter (\<lambda>y. \<not> P y) xs))"
    and "length (filter P xs) \<le> 1"
  shows "distinct (map k (map (\<lambda>y. if P y then x' else y) xs))"
  using assms
proof (induction xs)
  case Nil then show ?case by simp
next
  case (Cons a xs)
  show ?case
  proof (cases "P a")
    case True
    with Cons.prems(3) have none: "filter P xs = []" by simp
    then have "\<forall>y\<in>set xs. \<not> P y" by (simp add: filter_empty_conv)
    then have same: "map (\<lambda>y. if P y then x' else y) xs = xs" "filter (\<lambda>y. \<not> P y) xs = xs"
      by (simp_all add: map_idI)
    show ?thesis using True Cons.prems same by simp
  next
    case False
    have "k a \<notin> set (map k (map (\<lambda>y. if P y then x' else y) xs))"
    proof
      assume "k a \<in> set (map k (map (\<lambda>y. if P y then x' else y) xs))"
      then obtain y where y: "y \<in> set xs" "k a = k (if P y then x' else y)" by auto
      show False
      proof (cases "P y")
        case True
        with y have "k x' = k a" by simp
        with False Cons.prems(2) show False by simp
      next
        case F: False
        with y Cons.prems(1) show False by auto
      qed
    qed
    moreover have "distinct (map k (map (\<lambda>y. if P y then x' else y) xs))"
      using Cons False by simp
    ultimately show ?thesis using False by simp
  qed
qed

lemma cart_upsert_inv:
  assumes pk: "cart_pkey d" and un: "cart_unique d" and up: "cart_upsert uid now r d = Inr d'"
  shows "cart_pkey d' \<and> cart_unique d'"
proof (cases "filter (\<lambda>x. cart_id x = cart_id r) (cart d)")
  case Nil
  with up have k: "cart_keys d (cart d) r = None" and d': "d' = d\<lparr>cart := cart d @ [r]\<rparr>"
    by (auto simp: cart_upsert_def split: if_splits option.splits)
  show ?thesis using pk un cart_keys_None[OF k] by (simp add: d' cart_unique_def cart_pkey_def)
next
  case (Cons x rest)
  define x' where "x' = x\<lparr>cart_user_id := cart_user_id r, cart_product_id := cart_product_id r,
                    cart_quantity := cart_quantity r, cart_updated_at := now\<rparr>"
  from Cons have "x \<in> set (filter (\<lambda>x. cart_id x = cart_id r) (cart d))" by simp
  then have idx: "cart_id x = cart_id r" by simp
  from up Cons have k: "cart_keys d (filter (\<lambda>y. cart_id y \<noteq> cart_id r) (cart d)) x' = None"
    and d': "d' = d\<lparr>cart := map (\<lambda>y. if cart_id y = cart_id r then x' else y) (cart d)\<rparr>"
    by (auto simp: cart_upsert_def Let_def x'_def split: if_splits option.splits)
  have ids: "map (cart_id \<circ> (\<lambda>y. if cart_id y = cart_id r then x' else y)) (cart d) = map cart_id (cart d)"
    using idx by (auto simp: x'_def)
  have le1: "length (filter (\<lambda>y. cart_id y = cart_id r) (cart d)) \<le> 1"
    using pk unfolding cart_pkey_def by (rule filter_key_le1)
  have "distinct (map (\<lambda>r. (cart_user_id r, cart_product_id r))
           (map (\<lambda>y. if cart_id y = cart_id r then x' else y) (cart d)))"
    using un cart_keys_None(1)[OF k] le1 unfolding cart_unique_def
    by (intro distinct_map_replace) simp_all
  then show ?thesis using pk by (simp add: d' cart_unique_def cart_pkey_def ids)
qed

lemma cart_set_quantity_cart:
  assumes "cart_set_quantity uid now wh q d = Inr d'"
  shows "map cart_id (cart d') = map cart_id (cart d)"
    and "map (\<lambda>r. (cart_user_id r, cart_product_id r)) (cart d')
         = map (\<lambda>r. (cart_user_id r, cart_product_id r)) (cart d)"
  using assms
  by (auto simp: cart_set_quantity_def rls_update_def split: if_splits)

lemma cart_set_quantity_inv:
  assumes "cart_pkey d" "cart_unique d" "cart_set_quantity uid now wh q d = Inr d'"
  shows "cart_pkey d' \<and> cart_unique d'"
  using assms(1,2) cart_set_quantity_cart[OF assms(3)] by (simp add: cart_pkey_def cart_unique_def)

lemma cart_delete_inv:
  assumes "cart_pkey d" "cart_unique d" "cart_delete uid wh d = Inr d'"
  shows "cart_pkey d' \<and> cart_unique d'"
  using assms by (auto simp: cart_delete_def cart_pkey_def cart_unique_def rls_delete_def distinct_map_filter)

lemma cart_exec_inv:
  assumes "cart_pkey d" "cart_unique d" "cart_exec uid now s d = Inr d'"
  shows "cart_pkey d' \<and> cart_unique d'"
  using assms
  by (cases s) (auto dest: cart_insert_inv cart_upsert_inv cart_set_quantity_inv cart_delete_inv)

lemma transaction_inv:
  assumes "\<And>d'. body d = Inr d' \<Longrightarrow> P d'" and "P d"
  shows "P (snd (transaction body d))"
  using assms by (auto simp: transaction_def split: sum.splits)

lemma cart_run_inv:
  "cart_pkey d \<Longrightarrow> cart_unique d \<Longrightarrow> cart_pkey (cart_run ss d) \<and> cart_unique (cart_run ss d)"
proof (induction ss arbitrary: d)
  case Nil then show ?case by simp
next
  case (Cons a ss)
  obtain uid now s where a: "a = (uid, now, s)" by (cases a)
  have "cart_pkey (snd (transaction (cart_exec uid now s) d)) \<and> cart_unique (snd (transaction (cart_exec uid now s) d))"
    using Cons.prems by (intro transaction_inv[where P="\<lambda>d. cart_pkey d \<and> cart_unique d"]) (auto dest: cart_exec_inv)
  then show ?case using Cons.IH by (simp add: a)
qed

lemma cart_lines_le1: "cart_unique d \<Longrightarrow> length (cart_lines d u p) \<le> 1"
proof -
  assume "cart_unique d"
  then have "length (filter (\<lambda>y. (cart_user_id y, cart_product_id y) = (u, p)) (cart d)) \<le> 1"
    unfolding cart_unique_def by (rule filter_key_le1)
  then show ?thesis by (simp add: cart_lines_def)
qed

lemma client_inv:
  assumes "cart_pkey d" "cart_unique d"
  shows "cart_pkey (snd (ProductCard_addToCart session p cq newid now d))
         \<and> cart_unique (snd (ProductCard_addToCart session p cq newid now d))"
    and "cart_pkey (snd (ProductCard_updateQuantity session p q newid now d))
         \<and> cart_unique (snd (ProductCard_updateQuantity session p q newid now d))"
    and "cart_pkey (snd (Cart_updateQuantity session cid q now d))
         \<and> cart_unique (snd (Cart_updateQuantity session cid q now d))"
    and "cart_pkey (snd (Cart_removeFromCart session cid d))
         \<and> cart_unique (snd (Cart_removeFromCart session cid d))"
proof -
  note tr = transaction_inv[where P="\<lambda>d. cart_pkey d \<and> cart_unique d"]
  show "cart_pkey (snd (ProductCard_addToCart session p cq newid now d))
         \<and> cart_unique (snd (ProductCard_addToCart session p cq newid now d))"
    unfolding ProductCard_addToCart_def using assms
    by (cases session) (auto intro!: tr dest: cart_upsert_inv)
  show "cart_pkey (snd (ProductCard_updateQuantity session p q newid now d))
         \<and> cart_unique (snd (ProductCard_updateQuantity session p q newid now d))"
    unfolding ProductCard_updateQuantity_def using assms
    by (cases session) (auto intro!: tr dest: cart_upsert_inv cart_delete_inv)
  show "cart_pkey (snd (Cart_updateQuantity session cid q now d))
         \<and> cart_unique (snd (Cart_updateQuantity session cid q now d))"
    unfolding Cart_updateQuantity_def using assms
    by (auto intro!: tr dest: cart_set_quantity_inv cart_delete_inv)
  show "cart_pkey (snd (Cart_removeFromCart session cid d))
         \<and> cart_unique (snd (Cart_removeFromCart session cid d))"
    unfolding Cart_removeFromCart_def using assms
    by (auto intro!: tr dest: cart_delete_inv)
qed

text \<open>
  The primary key and \<^verbatim>\<open>UNIQUE(user_id, product_id)\<close> are invariants of the cart: they hold
  after every run of client statements (inserts, upserts, quantity updates and deletes, sent by
  anybody, accepted or rejected) when they held before, so a user never has two lines for one
  product, and each of the four cart operations of the client keeps the constraint.
\<close>

lemma cart_line_unique:
  assumes "cart_pkey d" and "cart_unique d"
  shows "cart_pkey (cart_run ss d) \<and> cart_unique (cart_run ss d)
       \<and> length (cart_lines (cart_run ss d) u p) \<le> 1
       \<and> cart_unique (snd (ProductCard_addToCart session p cq newid now d))
       \<and> cart_unique (snd (ProductCard_updateQuantity session p q newid now d))
       \<and> cart_unique (snd (Cart_updateQuantity session cid q now d))
       \<and> cart_unique (snd (Cart_removeFromCart session cid d))"
  using cart_run_inv[OF assms] cart_lines_le1 client_inv[OF assms] by blast

text \<open>
  C5, at an input where two upserts meet. User 2 has no line for Milk (product 11) and presses
  ADD on two product cards that both still show no line, so two upserts with quantity 1 go
  out. The unique index puts them one after the other, whichever comes first: the first inserts
  the line, the second proposes a row with a fresh \<^verbatim>\<open>id\<close> and is rejected by
  \<^verbatim>\<open>UNIQUE(user_id, product_id)\<close>, and the database stays as the first left it. The same
  happens to an upsert with quantity 2 that follows one with quantity 1: it is rejected and
  the line keeps quantity 1. There is one row and never two, but no request is merged into it.
\<close>

theorem upsert_not_merged:
  "ProductCard_addToCart (Some 2) 11 0 71 0
       (snd (ProductCard_addToCart (Some 2) 11 0 70 0 example_db))
     = (Some (UniqueViolation ''cart_user_id_product_id_key''),
        snd (ProductCard_addToCart (Some 2) 11 0 70 0 example_db))
   \<and> cart_lines (snd (ProductCard_addToCart (Some 2) 11 0 70 0 example_db)) 2 11
       = [cart_new 70 0 2 11 1]
   \<and> fst (transaction (cart_exec (Some 2) 0 (CartUpsert (cart_new 71 0 2 11 2)))
         (cart_run [(Some 2, 0, CartUpsert (cart_new 70 0 2 11 1))] example_db))
     = Some (UniqueViolation ''cart_user_id_product_id_key'')
   \<and> map cart_quantity (cart_lines
       (cart_run [(Some 2, 0, CartUpsert (cart_new 70 0 2 11 1)),
                  (Some 2, 0, CartUpsert (cart_new 71 0 2 11 2))] example_db) 2 11) = [1]"
  by (simp add: ProductCard_addToCart_def transaction_def cart_upsert_def int4_ok_def
      permitted_cart cart_new_def example_db_def cart_keys_def example_product_def cart_lines_def)

section \<open>Setting a quantity from the product card\<close>

lemma ProductCard_updateQuantity_existing:
  assumes "0 < q" "int4_ok q" "cart_lines d u p \<noteq> []" "newid \<notin> set (map cart_id (cart d))"
  shows "ProductCard_updateQuantity (Some u) p q newid now d
         = (Some (UniqueViolation ''cart_user_id_product_id_key''), d)"
proof -
  from assms(3) obtain x where x: "x \<in> set (cart d)" "cart_user_id x = u" "cart_product_id x = p"
    by (auto simp: cart_lines_def filter_empty_conv)
  from assms(4) have nil: "filter (\<lambda>x. cart_id x = newid) (cart d) = []"
    by (auto simp: filter_empty_conv)
  have "cart_keys d (cart d) (cart_new newid now u p q)
        = Some (UniqueViolation ''cart_user_id_product_id_key'')"
    using x assms(4) by (auto simp: cart_keys_def cart_new_def list_ex_iff)
  then show ?thesis using assms(1,2) nil
    by (simp add: ProductCard_updateQuantity_def transaction_def cart_upsert_def permitted_cart
        cart_new_def)
qed

text \<open>
  C6, at an input where a line exists. User 1 has two Banana (product 10) in the cart and
  presses plus on the product card: \<^verbatim>\<open>updateQuantity(3)\<close>. The upsert proposes a row with a
  fresh \<^verbatim>\<open>id\<close>, which clashes with the existing line on \<^verbatim>\<open>(user_id, product_id)\<close>; the
  request is rejected and the database is as before, the line still at quantity 2. The cart
  page, which updates the line by its \<^verbatim>\<open>id\<close>, does set the quantity to 3.
\<close>

theorem updateQuantity_existing_line_rejected:
  "map cart_quantity (cart_lines example_db 1 10) = [2]
   \<and> ProductCard_updateQuantity (Some 1) 10 3 70 5 example_db
       = (Some (UniqueViolation ''cart_user_id_product_id_key''), example_db)
   \<and> fst (Cart_updateQuantity (Some 1) 30 3 5 example_db) = None
   \<and> map cart_quantity (cart_lines (snd (Cart_updateQuantity (Some 1) 30 3 5 example_db)) 1 10) = [3]"
  by (simp add: ProductCard_updateQuantity_def Cart_updateQuantity_def transaction_def
      cart_upsert_def cart_set_quantity_def rls_update_def rls_target_def rls_affected_def
      int4_ok_def permitted_cart cart_new_def cart_keys_def cart_lines_def example_db_def)

section \<open>Quantities of zero and below\<close>

lemma ProductCard_updateQuantity_zero:
  "ProductCard_updateQuantity (Some u) p 0 newid now d
   = (None, d\<lparr>cart := filter (\<lambda>r. \<not> (cart_user_id r = u \<and> cart_product_id r = p)) (cart d)\<rparr>)"
  by (simp add: ProductCard_updateQuantity_def transaction_def cart_delete_def rls_delete_def
      rls_target_def permitted_cart cong: filter_cong)

lemma Cart_updateQuantity_zero:
  "Cart_updateQuantity (Some u) cid 0 now d
   = (None, d\<lparr>cart := filter (\<lambda>r. \<not> (cart_user_id r = u \<and> cart_id r = cid)) (cart d)\<rparr>)"
proof -
  have "filter (\<lambda>r. \<not> rls_target cart_policies Delete d (Some u) (\<lambda>r. cart_id r = cid) r) (cart d)
        = filter (\<lambda>r. \<not> (cart_user_id r = u \<and> cart_id r = cid)) (cart d)"
    by (rule filter_cong) (auto simp: rls_target_def permitted_cart)
  then show ?thesis
    by (simp add: Cart_updateQuantity_def transaction_def cart_delete_def rls_delete_def)
qed

text \<open>
  C7, as amended. With quantity 0 the product card deletes the user's line for the product and
  nothing else, which leaves no line for the pair, changes nothing when there was none, and
  gives the same result when repeated; the cart page deletes the line with the given
  \<^verbatim>\<open>id\<close> when it is the user's. With a negative quantity both functions return at their
  first line and the database stays as it is, a line that exists included.
\<close>

theorem setQuantity_zero_deletes_negative_ignored:
  "ProductCard_updateQuantity (Some u) p 0 newid now d
     = (None, d\<lparr>cart := filter (\<lambda>r. \<not> (cart_user_id r = u \<and> cart_product_id r = p)) (cart d)\<rparr>)
   \<and> cart_lines (snd (ProductCard_updateQuantity (Some u) p 0 newid now d)) u p = []
   \<and> (cart_lines d u p = [] \<longrightarrow> ProductCard_updateQuantity (Some u) p 0 newid now d = (None, d))
   \<and> ProductCard_updateQuantity (Some u) p 0 newid' now'
         (snd (ProductCard_updateQuantity (Some u) p 0 newid now d))
       = ProductCard_updateQuantity (Some u) p 0 newid now d
   \<and> Cart_updateQuantity (Some u) cid 0 now d
       = (None, d\<lparr>cart := filter (\<lambda>r. \<not> (cart_user_id r = u \<and> cart_id r = cid)) (cart d)\<rparr>)
   \<and> (q < 0 \<longrightarrow> ProductCard_updateQuantity session p q newid now d = (None, d))
   \<and> (q < 0 \<longrightarrow> Cart_updateQuantity session cid q now d = (None, d))"
proof -
  have noop: "d\<lparr>cart := filter (\<lambda>r. \<not> (cart_user_id r = u \<and> cart_product_id r = p)) (cart d)\<rparr> = d"
    if "cart_lines d u p = []"
  proof -
    from that have "filter (\<lambda>r. \<not> (cart_user_id r = u \<and> cart_product_id r = p)) (cart d) = cart d"
      by (auto simp: cart_lines_def filter_empty_conv filter_id_conv)
    then show ?thesis by simp
  qed
  have lines: "cart_lines (snd (ProductCard_updateQuantity (Some u) p 0 newid now d)) u p = []"
    by (auto simp: ProductCard_updateQuantity_zero cart_lines_def filter_empty_conv)
  have again: "ProductCard_updateQuantity (Some u) p 0 newid' now'
         (snd (ProductCard_updateQuantity (Some u) p 0 newid now d))
       = ProductCard_updateQuantity (Some u) p 0 newid now d"
    by (simp add: ProductCard_updateQuantity_zero)
  have neg1: "q < 0 \<longrightarrow> ProductCard_updateQuantity session p q newid now d = (None, d)"
    by (simp add: ProductCard_updateQuantity_def)
  have neg2: "q < 0 \<longrightarrow> Cart_updateQuantity session cid q now d = (None, d)"
    by (simp add: Cart_updateQuantity_def)
  show ?thesis
    using lines again neg1 neg2 noop
    by (simp add: ProductCard_updateQuantity_zero Cart_updateQuantity_zero)
qed

theorem setQuantity_zero_deletes_negative_ignored_witness:
  "(- 3 :: int) < 0
   \<and> ProductCard_updateQuantity (Some 1) 10 (- 3) 70 5 example_db = (None, example_db)
   \<and> Cart_updateQuantity (Some 1) 30 (- 3) 5 example_db = (None, example_db)
   \<and> cart_lines example_db 2 11 = []
   \<and> ProductCard_updateQuantity (Some 2) 11 0 70 5 example_db = (None, example_db)
   \<and> map cart_id (cart (snd (ProductCard_updateQuantity (Some 1) 10 0 70 5 example_db))) = [31, 32]"
  using setQuantity_zero_deletes_negative_ignored [of 1 10 70 5 example_db 71 6 30 "- 3" "Some 1"]
    setQuantity_zero_deletes_negative_ignored [of 2 11 70 5 example_db 71 6 30 "- 3" "Some 1"]
  by (simp add: cart_lines_def example_db_def cart_new_def)

text \<open>
  C7, as stated, has every quantity \<open>q \<le> 0\<close> delete the line. For \<open>q = - 1\<close> the line of
  user 1 for product 10 is still there afterwards, from the product card and from the cart page.
\<close>

theorem setQuantity_negative_keeps_line:
  "(- 1 :: int) \<le> 0
   \<and> cart_lines (snd (ProductCard_updateQuantity (Some 1) 10 (- 1) 70 5 example_db)) 1 10
       = [cart_new 30 0 1 10 2]
   \<and> cart_lines (snd (Cart_updateQuantity (Some 1) 30 (- 1) 5 example_db)) 1 10
       = [cart_new 30 0 1 10 2]"
  by (simp add: ProductCard_updateQuantity_def Cart_updateQuantity_def cart_lines_def
      example_db_def cart_new_def)

section \<open>A profile for every new identity\<close>

lemma handle_new_user_Inr:
  assumes "handle_new_user new newid now d = Inr d'"
  shows "d' = d\<lparr>profiles := profiles d @
            [profile_new newid now (auth_user_id new) (json_get_text (raw_user_meta_data new) ''full_name'')]\<rparr>"
    and "auth_user_id new \<notin> set (map profile_user_id (profiles d))"
  using assms by (auto simp: handle_new_user_def Let_def profiles_constraints_def profile_new_def
      split: option.splits if_splits)

lemma handle_new_user_again:
  assumes "auth_user_id new \<in> set (map profile_user_id (profiles d))"
  shows "\<exists>c. handle_new_user new newid now d = Inl (UniqueViolation c)"
  using assms by (auto simp: handle_new_user_def Let_def profiles_constraints_def profile_new_def)

lemma on_auth_user_created_Inr:
  assumes fk: "profiles_fkey d" and ok: "on_auth_user_created new newid now d = Inr d'"
  shows "filter (\<lambda>r. profile_user_id r = auth_user_id new) (profiles d')
         = [profile_new newid now (auth_user_id new) (json_get_text (raw_user_meta_data new) ''full_name'')]"
    and "auth_users d' = auth_users d @ [new]"
    and "\<exists>c. handle_new_user new newid' now' d' = Inl (UniqueViolation c)"
    and "profiles_fkey d'"
proof -
  let ?d1 = "d\<lparr>auth_users := auth_users d @ [new]\<rparr>"
  let ?r = "profile_new newid now (auth_user_id new) (json_get_text (raw_user_meta_data new) ''full_name'')"
  from ok have fresh: "auth_user_id new \<notin> set (map auth_user_id (auth_users d))"
    and h: "handle_new_user new newid now ?d1 = Inr d'"
    by (auto simp: on_auth_user_created_def split: if_splits)
  from handle_new_user_Inr(1)[OF h] have d': "d' = ?d1\<lparr>profiles := profiles d @ [?r]\<rparr>" by simp
  from fk fresh have "\<forall>r\<in>set (profiles d). profile_user_id r \<noteq> auth_user_id new"
    unfolding profiles_fkey_def list_all_iff by metis
  then have none: "filter (\<lambda>r. profile_user_id r = auth_user_id new) (profiles d) = []"
    by (simp add: filter_empty_conv)
  show "filter (\<lambda>r. profile_user_id r = auth_user_id new) (profiles d') = [?r]"
    using none by (simp add: d' profile_new_def)
  show "auth_users d' = auth_users d @ [new]" by (simp add: d')
  have "auth_user_id new \<in> set (map profile_user_id (profiles d'))"
    by (simp add: d' profile_new_def)
  then show "\<exists>c. handle_new_user new newid' now' d' = Inl (UniqueViolation c)"
    by (rule handle_new_user_again)
  show "profiles_fkey d'"
    using fk by (auto simp: d' profiles_fkey_def list_all_iff profile_new_def)
qed

lemma on_auth_user_created_succeeds:
  assumes "profiles_fkey d" "auth_user_id new \<notin> set (map auth_user_id (auth_users d))"
    "newid \<notin> set (map profile_id (profiles d))"
  shows "\<exists>d'. on_auth_user_created new newid now d = Inr d'"
proof -
  from assms(1,2) have "\<forall>r\<in>set (profiles d). profile_user_id r \<noteq> auth_user_id new"
    unfolding profiles_fkey_def list_all_iff by metis
  then have "auth_user_id new \<notin> set (map profile_user_id (profiles d))"
    by auto
  then show ?thesis using assms(2,3)
    by (simp add: on_auth_user_created_def handle_new_user_def Let_def profiles_constraints_def
        profile_new_def)
qed

text \<open>
  C8. Take a database whose profiles all belong to existing users (the foreign key of
  \<^verbatim>\<open>profiles.user_id\<close>), an identity that is new and a generated profile id that is free.
  Then creating the identity succeeds, and right afterwards there is exactly one profile row
  for it: \<^verbatim>\<open>full_name\<close> is the text of the metadata key \<^verbatim>\<open>full_name\<close> (\<^verbatim>\<open>NULL\<close> when
  the key is missing), \<^verbatim>\<open>language\<close> is \<^verbatim>\<open>'en'\<close>, \<^verbatim>\<open>data_collection_consent\<close> is false.
  Running the provisioning function once more for the same identity, with any generated id,
  fails with a uniqueness violation.
\<close>

theorem profile_provisioned:
  assumes "profiles_fkey d"
    and "auth_user_id new \<notin> set (map auth_user_id (auth_users d))"
    and "newid \<notin> set (map profile_id (profiles d))"
  shows "\<exists>d'. on_auth_user_created new newid now d = Inr d'
          \<and> auth_users d' = auth_users d @ [new]
          \<and> filter (\<lambda>r. profile_user_id r = auth_user_id new) (profiles d')
              = [\<lparr>profile_id = newid, profile_user_id = auth_user_id new,
                  profile_full_name = json_get_text (raw_user_meta_data new) ''full_name'',
                  profile_phone = None, profile_language = Some ''en'',
                  profile_data_collection_consent = Some False,
                  profile_created_at = now, profile_updated_at = now\<rparr>]
          \<and> (\<exists>c. handle_new_user new newid' now' d' = Inl (UniqueViolation c))"
proof -
  from on_auth_user_created_succeeds[OF assms] obtain d'
    where ok: "on_auth_user_created new newid now d = Inr d'" by blast
  show ?thesis
    using ok on_auth_user_created_Inr(1,2,3)[OF assms(1) ok]
    by (auto simp: profile_new_def)
qed

theorem profile_provisioned_witness:
  "profiles_fkey example_db
   \<and> (3::nat) \<notin> set (map auth_user_id (auth_users example_db))
   \<and> (62::nat) \<notin> set (map profile_id (profiles example_db))
   \<and> (\<exists>d'. on_auth_user_created
              \<lparr>auth_user_id = 3, raw_user_meta_data = [(''full_name'', JStr ''Asha'')]\<rparr> 62 7 example_db
            = Inr d'
          \<and> filter (\<lambda>r. profile_user_id r = 3) (profiles d')
              = [\<lparr>profile_id = 62, profile_user_id = 3, profile_full_name = Some ''Asha'',
                  profile_phone = None, profile_language = Some ''en'',
                  profile_data_collection_consent = Some False,
                  profile_created_at = 7, profile_updated_at = 7\<rparr>]
          \<and> (\<exists>c. handle_new_user
                \<lparr>auth_user_id = 3, raw_user_meta_data = [(''full_name'', JStr ''Asha'')]\<rparr> 63 8 d'
              = Inl (UniqueViolation c)))"
proof -
  have h1: "profiles_fkey example_db"
    by (simp add: profiles_fkey_def example_db_def profile_new_def)
  have h2: "auth_user_id \<lparr>auth_user_id = 3, raw_user_meta_data = [(''full_name'', JStr ''Asha'')]\<rparr>
            \<notin> set (map auth_user_id (auth_users example_db))"
    by (simp add: example_db_def)
  have h3: "(62::nat) \<notin> set (map profile_id (profiles example_db))"
    by (simp add: example_db_def profile_new_def)
  from profile_provisioned [OF h1 h2 h3, of 7 63 8] obtain d' where
    "on_auth_user_created \<lparr>auth_user_id = 3, raw_user_meta_data = [(''full_name'', JStr ''Asha'')]\<rparr>
       62 7 example_db = Inr d'"
    "filter (\<lambda>r. profile_user_id r = 3) (profiles d')
              = [\<lparr>profile_id = 62, profile_user_id = 3, profile_full_name = Some ''Asha'',
                  profile_phone = None, profile_language = Some ''en'',
                  profile_data_collection_consent = Some False,
                  profile_created_at = 7, profile_updated_at = 7\<rparr>]"
    "\<exists>c. handle_new_user
                \<lparr>auth_user_id = 3, raw_user_meta_data = [(''full_name'', JStr ''Asha'')]\<rparr> 63 8 d'
              = Inl (UniqueViolation c)"
    by (auto simp: json_get_text_def)
  then show ?thesis using h1 h2 h3 by auto
qed

text \<open>
  C10. Let an identity be created with the metadata of the signup form: the name, the phone,
  the language and the consent. Creation succeeds (for a new identity and a free profile id),
  and the one profile that comes out of it has the name, but no phone, the language
  \<^verbatim>\<open>'en'\<close> and consent false, whatever phone, language and consent were sent. The form
  itself sends exactly this metadata, with consent true, since it refuses to submit without.
\<close>

theorem signup_choices_not_stored:
  assumes "profiles_fkey d"
    and "uid \<notin> set (map auth_user_id (auth_users d))"
    and "newid \<notin> set (map profile_id (profiles d))"
  shows "fst (transaction (on_auth_user_created
                \<lparr>auth_user_id = uid,
                 raw_user_meta_data = signUp_data fullName phone language consent\<rparr> newid now) d)
          = None
       \<and> filter (\<lambda>r. profile_user_id r = uid)
            (profiles (snd (transaction (on_auth_user_created
                \<lparr>auth_user_id = uid,
                 raw_user_meta_data = signUp_data fullName phone language consent\<rparr> newid now) d)))
          = [\<lparr>profile_id = newid, profile_user_id = uid, profile_full_name = Some fullName,
              profile_phone = None, profile_language = Some ''en'',
              profile_data_collection_consent = Some False,
              profile_created_at = now, profile_updated_at = now\<rparr>]
       \<and> handleSubmit_signup fullName phone language True uid newid now d
          = transaction (on_auth_user_created
                \<lparr>auth_user_id = uid,
                 raw_user_meta_data = signUp_data fullName phone language True\<rparr> newid now) d"
proof -
  let ?new = "\<lparr>auth_user_id = uid, raw_user_meta_data = signUp_data fullName phone language consent\<rparr>"
  have fresh: "auth_user_id ?new \<notin> set (map auth_user_id (auth_users d))" using assms(2) by simp
  from on_auth_user_created_succeeds[OF assms(1) fresh assms(3)] obtain d'
    where ok: "on_auth_user_created ?new newid now d = Inr d'" by blast
  have name: "json_get_text (signUp_data fullName phone language consent) ''full_name'' = Some fullName"
    by (simp add: json_get_text_def signUp_data_def)
  show ?thesis
    using ok on_auth_user_created_Inr(1)[OF assms(1) ok] name
    by (simp add: handleSubmit_signup_def transaction_def profile_new_def)
qed

theorem signup_choices_not_stored_witness:
  "profiles_fkey example_db
   \<and> (3::nat) \<notin> set (map auth_user_id (auth_users example_db))
   \<and> (62::nat) \<notin> set (map profile_id (profiles example_db))
   \<and> signUp_data ''Asha'' ''5550123'' ''hi'' True
       = [(''full_name'', JStr ''Asha''), (''phone'', JStr ''5550123''), (''language'', JStr ''hi''),
          (''data_collection_consent'', JBool True)]
   \<and> filter (\<lambda>r. profile_user_id r = 3)
        (profiles (snd (handleSubmit_signup ''Asha'' ''5550123'' ''hi'' True 3 62 7 example_db)))
       = [\<lparr>profile_id = 62, profile_user_id = 3, profile_full_name = Some ''Asha'',
           profile_phone = None, profile_language = Some ''en'',
           profile_data_collection_consent = Some False,
           profile_created_at = 7, profile_updated_at = 7\<rparr>]"
proof -
  have h1: "profiles_fkey example_db"
    by (simp add: profiles_fkey_def example_db_def profile_new_def)
  have h2: "(3::nat) \<notin> set (map auth_user_id (auth_users example_db))"
    by (simp add: example_db_def)
  have h3: "(62::nat) \<notin> set (map profile_id (profiles example_db))"
    by (simp add: example_db_def profile_new_def)
  show ?thesis
    using h1 h2 h3
      signup_choices_not_stored [OF h1 h2 h3, of "''Asha''" "''5550123''" "''hi''" True 7]
    by (simp add: signUp_data_def)
qed

section \<open>Order items keep their prices\<close>

lemma own_order_ids_orders: "orders d' = orders d \<Longrightarrow> own_order_ids d' uid = own_order_ids d uid"
  by (simp add: own_order_ids_eq)

lemma item_view_products:
  assumes "products d' = map g (products d)"
    and "\<And>p. product_id (g p) = product_id p \<and> product_name (g p) = product_name p
          \<and> product_image_url (g p) = product_image_url p \<and> product_is_active (g p) = product_is_active p"
  shows "item_view d' uid i = item_view d uid i"
proof -
  let ?P = "\<lambda>p. product_is_active p = Some True \<and> product_id p = item_product_id i"
  have "filter ?P (map g (products d)) = map g (filter ?P (products d))"
    using assms(2) by (simp add: filter_map comp_def)
  then show ?thesis
    using assms(2)
    by (cases "filter ?P (products d)")
       (simp_all add: item_view_def rls_select_def permitted_products assms(1))
qed

lemma fetchOrders_products:
  assumes "orders d' = orders d" "order_items d' = order_items d" "products d' = map g (products d)"
    and "\<And>p. product_id (g p) = product_id p \<and> product_name (g p) = product_name p
          \<and> product_image_url (g p) = product_image_url p \<and> product_is_active (g p) = product_is_active p"
  shows "fetchOrders d' user = fetchOrders d user"
proof -
  have iv: "item_view d' user = item_view d user"
    using item_view_products[OF assms(3,4)] by (intro ext)
  have perm: "permitted order_items_policies c d' user r = permitted order_items_policies c d user r" for c r
    by (simp only: permitted_order_items own_order_ids_orders[OF assms(1)])
  have sel: "rls_select order_items_policies d' user w (order_items d')
           = rls_select order_items_policies d user w (order_items d)" for w
    unfolding rls_select_def by (simp only: perm assms(2))
  have ov: "order_view d' user r = order_view d user r" for r
    unfolding order_view_def by (simp only: sel iv)
  have ov': "order_view d' user = order_view d user"
    using ov by (intro ext)
  have sel': "rls_select orders_policies d' user w (orders d')
           = rls_select orders_policies d user w (orders d)" for w
    unfolding rls_select_def by (simp only: permitted_orders assms(1))
  show ?thesis
    unfolding fetchOrders_def by (simp only: ov' sel')
qed

text \<open>
  C2. An accepted change of product prices, on whichever products, touches neither
  \<^verbatim>\<open>order_items\<close> nor \<^verbatim>\<open>orders\<close>: every order item keeps its \<^verbatim>\<open>unit_price\<close> and
  \<^verbatim>\<open>total_price\<close>. What \<^verbatim>\<open>fetchOrders\<close> shows is the same before and after, for every
  user: the order history reads \<^verbatim>\<open>unit_price\<close> from the item and nothing from
  \<^verbatim>\<open>products.price\<close>. The prices of the products did change.
\<close>

theorem price_change_leaves_order_items:
  assumes "update_product_price wh v now d = Inr d'"
  shows "order_items d' = order_items d \<and> orders d' = orders d
       \<and> fetchOrders d' user = fetchOrders d user
       \<and> map product_price (products d')
           = map (\<lambda>p. if wh p then v else product_price p) (products d)"
proof -
  let ?g = "\<lambda>p. if wh p then p\<lparr>product_price := v, product_updated_at := now\<rparr> else p"
  from assms have d': "d' = d\<lparr>products := map ?g (products d)\<rparr>"
    by (simp add: update_product_price_def split: if_splits)
  have "fetchOrders d' user = fetchOrders d user"
    by (rule fetchOrders_products[where g = ?g]) (simp_all add: d')
  then show ?thesis by (simp add: d')
qed

lemma example_reprice:
  "update_product_price (\<lambda>p. product_id p = 10) 4500 9 example_db
   = Inr (example_db\<lparr>products :=
       [(example_product 10 ''Banana'' 4500 True)\<lparr>product_updated_at := 9\<rparr>,
        example_product 11 ''Milk'' 5500 True, example_product 12 ''Soap'' 3000 False]\<rparr>)"
  by (simp add: update_product_price_def decimal_10_2_ok_def example_db_def example_product_def)

theorem price_change_leaves_order_items_witness:
  "update_product_price (\<lambda>p. product_id p = 10) 4500 9 example_db
     = Inr (example_db\<lparr>products :=
         [(example_product 10 ''Banana'' 4500 True)\<lparr>product_updated_at := 9\<rparr>,
          example_product 11 ''Milk'' 5500 True, example_product 12 ''Soap'' 3000 False]\<rparr>)
   \<and> map (\<lambda>v. map oiv_unit_price (ov_order_items v))
       (fetchOrders (example_db\<lparr>products :=
         [(example_product 10 ''Banana'' 4500 True)\<lparr>product_updated_at := 9\<rparr>,
          example_product 11 ''Milk'' 5500 True, example_product 12 ''Soap'' 3000 False]\<rparr>) (Some 1))
     = [[4000]]"
proof -
  note h = example_reprice
  have "fetchOrders example_db (Some 1)
        = [\<lparr>ov_id = 40, ov_total_amount = 6000, ov_delivery_fee = Some 2000,
            ov_status = Some ''delivered'', ov_payment_method = Some ''cod'', ov_created_at = 0,
            ov_order_items = [\<lparr>oiv_quantity = 1, oiv_unit_price = 4000,
               oiv_product = Some \<lparr>oip_name = ''Banana'', oip_image_url = None\<rparr>\<rparr>]\<rparr>]"
    by (simp add: fetchOrders_def order_view_def item_view_def rls_select_def permitted_orders
        permitted_order_items permitted_products own_order_ids_eq example_db_def example_order_def
        example_item_def example_product_def)
  then show ?thesis
    using h price_change_leaves_order_items [OF h, of "Some 1"] by simp
qed

section \<open>What checkout leaves behind\<close>

lemma order_items_insert_Inr:
  assumes "order_items_insert uid r d = Inr d'"
  shows "d' = d\<lparr>order_items := order_items d @ [r]\<rparr>"
  using assms by (auto simp: order_items_insert_def rls_insert_def split: if_splits sum.splits)

lemma orders_insert_Inr:
  assumes "orders_insert uid r d = Inr d'"
  shows "d' = d\<lparr>orders := orders d @ [r]\<rparr>"
  using assms by (auto simp: orders_insert_def rls_insert_def split: if_splits sum.splits)

lemma current_price_products: "products d' = products d \<Longrightarrow> current_price d' = current_price d"
  by (intro ext) (simp add: current_price_def)

lemma checkout_items_Inr:
  assumes "checkout_items uid now oid gen k ls d = Inr d'"
  shows "\<exists>items. d' = d\<lparr>order_items := order_items d @ items\<rparr> \<and> list_all2 (line_item d oid) ls items"
  using assms
proof (induction ls arbitrary: k d)
  case Nil
  then show ?case by simp
next
  case (Cons l ls)
  from Cons.prems obtain v d1 where v: "current_price d (cart_product_id l) = Some v"
    and ins: "order_items_insert uid (checkout_item now oid (gen k) v l) d = Inr d1"
    and rest: "checkout_items uid now oid gen (Suc k) ls d1 = Inr d'"
    by (auto split: option.splits sum.splits)
  let ?i = "checkout_item now oid (gen k) v l"
  have d1: "d1 = d\<lparr>order_items := order_items d @ [?i]\<rparr>"
    using ins by (rule order_items_insert_Inr)
  from Cons.IH[OF rest] obtain items where
    d': "d' = d1\<lparr>order_items := order_items d1 @ items\<rparr>" and rel: "list_all2 (line_item d1 oid) ls items"
    by blast
  have cp: "current_price d1 = current_price d"
    by (rule current_price_products) (simp add: d1)
  have "line_item d1 oid = line_item d oid"
    by (intro ext) (simp add: line_item_def cp)
  with rel have rel': "list_all2 (line_item d oid) ls items" by simp
  have first: "line_item d oid l ?i"
    using v by (simp add: line_item_def checkout_item_def)
  have "d' = d\<lparr>order_items := order_items d @ (?i # items)\<rparr>"
    by (simp add: d' d1)
  moreover have "list_all2 (line_item d oid) (l # ls) (?i # items)"
    using first rel' by simp
  ultimately show ?case by blast
qed

lemma checkout_subtotal_sum:
  assumes "checkout_subtotal d ls = Some s" and "list_all2 (line_item d oid) ls items"
  shows "s = sum_list (map item_total_price items)"
  using assms(2,1)
proof (induction arbitrary: s rule: list_all2_induct)
  case Nil
  then show ?case by simp
next
  case (Cons l ls i items)
  from Cons.prems obtain v rest where v: "current_price d (cart_product_id l) = Some v"
    and r: "checkout_subtotal d ls = Some rest" and s: "s = v * cart_quantity l + rest"
    by (auto split: option.splits)
  from Cons.hyps(1) v have "item_total_price i = v * cart_quantity l"
    by (simp add: line_item_def)
  then show ?case using Cons.IH[OF r] s by simp
qed

lemma checkout_steps_Inr:
  assumes "checkout_steps user address phone payment fee gen now d = Inr d'"
  shows "\<exists>ord items.
      orders d' = orders d @ [ord] \<and> order_user_id ord = user
    \<and> order_status ord = Some ''pending'' \<and> order_delivery_fee ord = Some fee
    \<and> order_items d' = order_items d @ items
    \<and> list_all2 (line_item d (order_id ord)) (filter (\<lambda>l. cart_user_id l = user) (cart d)) items
    \<and> order_total_amount ord = sum_list (map item_total_price items) + fee
    \<and> cart d' = filter (\<lambda>l. cart_user_id l \<noteq> user) (cart d)"
proof -
  let ?lines = "filter (\<lambda>l. cart_user_id l = user) (cart d)"
  from assms obtain s d1 d2 where s: "checkout_subtotal d ?lines = Some s"
    and o: "orders_insert (Some user) (checkout_order now (gen 0) user address phone payment fee s) d = Inr d1"
    and i: "checkout_items (Some user) now (gen 0) gen 1 ?lines d1 = Inr d2"
    and c: "cart_delete (Some user) (\<lambda>l. cart_user_id l = user) d2 = Inr d'"
    by (auto simp: checkout_steps_def Let_def split: option.splits sum.splits)
  let ?ord = "checkout_order now (gen 0) user address phone payment fee s"
  have d1: "d1 = d\<lparr>orders := orders d @ [?ord]\<rparr>" using o by (rule orders_insert_Inr)
  from checkout_items_Inr[OF i] obtain items where
    d2: "d2 = d1\<lparr>order_items := order_items d1 @ items\<rparr>"
    and rel: "list_all2 (line_item d1 (gen 0)) ?lines items" by blast
  have cp: "current_price d1 = current_price d"
    by (rule current_price_products) (simp add: d1)
  have "line_item d1 (gen 0) = line_item d (order_id ?ord)"
    by (intro ext) (simp add: line_item_def cp checkout_order_def)
  with rel have rel': "list_all2 (line_item d (order_id ?ord)) ?lines items" by simp
  have total: "order_total_amount ?ord = sum_list (map item_total_price items) + fee"
    using checkout_subtotal_sum[OF s rel'] by (simp add: checkout_order_def)
  have "filter (\<lambda>r. \<not> rls_target cart_policies Delete d2 (Some user) (\<lambda>l. cart_user_id l = user) r) (cart d)
        = filter (\<lambda>l. cart_user_id l \<noteq> user) (cart d)"
    by (rule filter_cong) (auto simp: rls_target_def permitted_cart)
  then have cart: "cart d' = filter (\<lambda>l. cart_user_id l \<noteq> user) (cart d)"
    using c by (auto simp: cart_delete_def rls_delete_def d2 d1)
  have "orders d' = orders d @ [?ord]" "order_items d' = order_items d @ items"
    using c by (auto simp: cart_delete_def d2 d1)
  then show ?thesis using rel' total cart
    by (intro exI[of _ ?ord] exI[of _ items]) (simp add: checkout_order_def)
qed

lemmas checkout_eval = checkout_def transaction_def checkout_steps_def Let_def current_price_def
  orders_insert_def order_items_insert_def rls_insert_def permitted_orders permitted_order_items
  own_order_ids_eq decimal_10_2_ok_def int4_ok_def checkout_order_def checkout_item_def
  cart_delete_def rls_delete_def rls_target_def permitted_cart
  example_db_def example_product_def example_order_def example_item_def cart_new_def

lemma example_checkout:
  "checkout 1 ''12 Park Road'' ''5550100'' ''cod'' 2000 (\<lambda>k. 100 + k) 9 example_db
   = (None, example_db\<lparr>
        cart := [cart_new 32 0 2 10 5],
        orders := [example_order,
                   checkout_order 9 100 1 ''12 Park Road'' ''5550100'' ''cod'' 2000 13500],
        order_items := [example_item, checkout_item 9 100 101 4000 (cart_new 30 0 1 10 2),
                        checkout_item 9 100 102 5500 (cart_new 31 0 1 11 1)]\<rparr>)"
  by (simp add: checkout_eval)

lemma example_checkout_fails:
  "checkout 1 ''12 Park Road'' ''5550100'' ''cod'' 2000 (\<lambda>k. if k = 2 then 50 else 100 + k) 9
     example_db
   = (Some (UniqueViolation ''order_items_pkey''), example_db)"
  by (simp add: checkout_eval)

text \<open>
  C4. When a user with at least one cart line checks out and the checkout succeeds, exactly
  one order is added: it is the user's, pending, carries the fee, and its \<^verbatim>\<open>total_amount\<close> is
  the sum of the \<^verbatim>\<open>total_price\<close> of its items plus the fee. Exactly one item is added per
  cart line of the user, in the same order, with the line's product and quantity, the
  product's current price as \<^verbatim>\<open>unit_price\<close> and \<^verbatim>\<open>unit_price\<close> times quantity as
  \<^verbatim>\<open>total_price\<close>. The user has no cart line left; the lines of other users are as before.
\<close>

theorem checkout_materializes_cart:
  assumes "filter (\<lambda>l. cart_user_id l = user) (cart d) \<noteq> []"
    and "checkout user address phone payment fee gen now d = (None, d')"
  shows "\<exists>ord items.
      orders d' = orders d @ [ord] \<and> order_user_id ord = user
    \<and> order_status ord = Some ''pending'' \<and> order_delivery_fee ord = Some fee
    \<and> order_items d' = order_items d @ items
    \<and> list_all2 (line_item d (order_id ord)) (filter (\<lambda>l. cart_user_id l = user) (cart d)) items
    \<and> order_total_amount ord = sum_list (map item_total_price items) + fee
    \<and> filter (\<lambda>l. cart_user_id l = user) (cart d') = []
    \<and> filter (\<lambda>l. cart_user_id l \<noteq> user) (cart d')
        = filter (\<lambda>l. cart_user_id l \<noteq> user) (cart d)"
proof -
  from assms(2) have "checkout_steps user address phone payment fee gen now d = Inr d'"
    by (auto simp: checkout_def transaction_def split: sum.splits)
  from checkout_steps_Inr[OF this] obtain ord items where *:
    "orders d' = orders d @ [ord]" "order_user_id ord = user"
    "order_status ord = Some ''pending''" "order_delivery_fee ord = Some fee"
    "order_items d' = order_items d @ items"
    "list_all2 (line_item d (order_id ord)) (filter (\<lambda>l. cart_user_id l = user) (cart d)) items"
    "order_total_amount ord = sum_list (map item_total_price items) + fee"
    "cart d' = filter (\<lambda>l. cart_user_id l \<noteq> user) (cart d)"
    by blast
  have "filter (\<lambda>l. cart_user_id l = user) (cart d') = []"
    by (simp add: *(8) filter_empty_conv)
  moreover have "filter (\<lambda>l. cart_user_id l \<noteq> user) (cart d')
      = filter (\<lambda>l. cart_user_id l \<noteq> user) (cart d)"
    by (simp add: *(8))
  ultimately show ?thesis using *(1-7)
    by (intro exI[of _ ord] exI[of _ items]) simp
qed

text \<open>
  The scenario of the spec: Banana twice at 40.00 and Milk once at 55.00 with a fee of 20.00
  give an order of 155.00 and items of 40.00/80.00 and 55.00/55.00 (next to the earlier order
  and its item); the cart page, which adds 20.00 to \<^verbatim>\<open>calculateTotal\<close>, shows the same
  total before the checkout.
\<close>

theorem checkout_materializes_cart_witness:
  "filter (\<lambda>l. cart_user_id l = 1) (cart example_db) \<noteq> []
   \<and> fst (checkout 1 ''12 Park Road'' ''5550100'' ''cod'' 2000 (\<lambda>k. 100 + k) 9 example_db) = None
   \<and> map order_total_amount
        (orders (snd (checkout 1 ''12 Park Road'' ''5550100'' ''cod'' 2000 (\<lambda>k. 100 + k) 9 example_db)))
       = [6000, 15500]
   \<and> map (\<lambda>i. (item_unit_price i, item_total_price i))
        (order_items (snd (checkout 1 ''12 Park Road'' ''5550100'' ''cod'' 2000 (\<lambda>k. 100 + k) 9 example_db)))
       = [(4000, 4000), (4000, 8000), (5500, 5500)]
   \<and> map cart_user_id
        (cart (snd (checkout 1 ''12 Park Road'' ''5550100'' ''cod'' 2000 (\<lambda>k. 100 + k) 9 example_db)))
       = [2]
   \<and> map_option (\<lambda>subtotal. subtotal + 2000) (calculateTotal (fetchCartItems example_db (Some 1)))
       = Some 15500"
proof -
  have h1: "filter (\<lambda>l. cart_user_id l = 1) (cart example_db) \<noteq> []"
    by (simp add: example_db_def cart_new_def)
  note h2 = example_checkout
  have c1: "fst (checkout 1 ''12 Park Road'' ''5550100'' ''cod'' 2000 (\<lambda>k. 100 + k) 9 example_db) = None"
    by (simp only: h2 fst_conv)
  have c2: "map order_total_amount
        (orders (snd (checkout 1 ''12 Park Road'' ''5550100'' ''cod'' 2000 (\<lambda>k. 100 + k) 9 example_db)))
       = [6000, 15500]"
    by (simp only: h2 snd_conv) (simp add: checkout_order_def example_order_def)
  have c3: "map (\<lambda>i. (item_unit_price i, item_total_price i))
        (order_items (snd (checkout 1 ''12 Park Road'' ''5550100'' ''cod'' 2000 (\<lambda>k. 100 + k) 9 example_db)))
       = [(4000, 4000), (4000, 8000), (5500, 5500)]"
    by (simp only: h2 snd_conv) (simp add: checkout_item_def example_item_def cart_new_def)
  have c4: "map cart_user_id
        (cart (snd (checkout 1 ''12 Park Road'' ''5550100'' ''cod'' 2000 (\<lambda>k. 100 + k) 9 example_db)))
       = [2]"
    by (simp only: h2 snd_conv) (simp add: cart_new_def)
  have c5: "map_option (\<lambda>subtotal. subtotal + 2000) (calculateTotal (fetchCartItems example_db (Some 1)))
       = Some 15500"
    by (simp add: calculateTotal_def fetchCartItems_def cart_item_view_def rls_select_def
        permitted_cart permitted_products example_db_def example_product_def cart_new_def)
  show ?thesis
    using h1 checkout_materializes_cart [OF h1 h2] c1 c2 c3 c4 c5 by blast
qed

text \<open>
  C3. A checkout that fails, at whichever step, leaves the whole database as it was before
  the call: no order and no order item of that checkout exists, and the cart lines are
  untouched.
\<close>

theorem checkout_failure_changes_nothing:
  assumes "fst (checkout user address phone payment fee gen now d) = Some e"
  shows "snd (checkout user address phone payment fee gen now d) = d
       \<and> checkout_steps user address phone payment fee gen now d = Inl e"
  using assms by (auto simp: checkout_def transaction_def split: sum.splits)

text \<open>
  A checkout that fails partway: the order and the first item are accepted, the identifier
  generated for the second item is taken (50), and nothing of the three steps remains.
\<close>

theorem checkout_failure_changes_nothing_witness:
  "fst (checkout 1 ''12 Park Road'' ''5550100'' ''cod'' 2000 (\<lambda>k. if k = 2 then 50 else 100 + k) 9
          example_db) = Some (UniqueViolation ''order_items_pkey'')
   \<and> snd (checkout 1 ''12 Park Road'' ''5550100'' ''cod'' 2000 (\<lambda>k. if k = 2 then 50 else 100 + k) 9
          example_db) = example_db
   \<and> orders_insert (Some 1)
        (checkout_order 9 100 1 ''12 Park Road'' ''5550100'' ''cod'' 2000 13500) example_db
       = Inr (example_db\<lparr>orders := [example_order,
           checkout_order 9 100 1 ''12 Park Road'' ''5550100'' ''cod'' 2000 13500]\<rparr>)"
proof -
  have step1: "orders_insert (Some 1)
        (checkout_order 9 100 1 ''12 Park Road'' ''5550100'' ''cod'' 2000 13500) example_db
       = Inr (example_db\<lparr>orders := [example_order,
           checkout_order 9 100 1 ''12 Park Road'' ''5550100'' ''cod'' 2000 13500]\<rparr>)"
    by (simp add: orders_insert_def rls_insert_def permitted_orders decimal_10_2_ok_def
        checkout_order_def example_db_def example_order_def)
  have h: "fst (checkout 1 ''12 Park Road'' ''5550100'' ''cod'' 2000
                 (\<lambda>k. if k = 2 then 50 else 100 + k) 9 example_db)
           = Some (UniqueViolation ''order_items_pkey'')"
    by (simp only: example_checkout_fails fst_conv)
  show ?thesis using h checkout_failure_changes_nothing [OF h] step1 by blast
qed

end
